theory Spec2Isabelle
  imports Main "HOL-Library.Word"
begin

unbundle bit_operations_syntax

section \<open>The instruction lifter (mcsema/BC/Instruction.cpp)\<close>

subsection \<open>Data of the lifter\<close>

text \<open>
  IR types, as far as the two source files look at them. LLVM types are uniqued, so
  the pointer comparison \<^verbatim>\<open>arg_type != imm_ref->getType()\<close> is equality of
  the terms below.
\<close>

datatype ir_type =
    IntegerTy nat
  | FloatTy
  | DoubleTy
  | X86_FP80Ty
  | PointerTy ir_type
  | VoidTy
  | OpaqueTy string

text \<open>
  \<^verbatim>\<open>llvm::DataLayout\<close> of the module: the only layout fact the types above need
  is the width of a pointer.
\<close>

record DataLayout =
  pointer_size_in_bits :: nat

fun getTypeSizeInBits :: "DataLayout \<Rightarrow> ir_type \<Rightarrow> nat" where
  "getTypeSizeInBits dl (IntegerTy n) = n"
| "getTypeSizeInBits dl FloatTy = 32"
| "getTypeSizeInBits dl DoubleTy = 64"
| "getTypeSizeInBits dl X86_FP80Ty = 80"
| "getTypeSizeInBits dl (PointerTy t) = pointer_size_in_bits dl"
| "getTypeSizeInBits dl VoidTy = 0"
| "getTypeSizeInBits dl (OpaqueTy s) = 0"

text \<open>\<^verbatim>\<open>remill::Operand\<close> and what hangs off it, with the fields the lifter reads.\<close>

record Register =
  reg_name :: string

datatype AddressKind =
  kInvalid | kMemoryWrite | kMemoryRead | kAddressCalculation | kControlFlowTarget

record Address =
  base_reg :: Register
  index_reg :: Register
  displacement :: "64 word"
  kind :: AddressKind

definition IsControlFlowTarget :: "Address \<Rightarrow> bool" where
  "IsControlFlowTarget mem = (kind mem = kControlFlowTarget)"

record Immediate =
  imm_val :: "64 word"
  is_signed :: bool

datatype OperandType = kTypeInvalid | kTypeRegister | kTypeImmediate | kTypeAddress

record Operand =
  op_type :: OperandType
  op_size :: nat
  imm :: Immediate
  addr :: Address

record Instruction =
  pc :: "64 word"
  operands :: "Operand list"

text \<open>The \<^verbatim>\<open>llvm::Argument\<close> of the semantics function that an operand is lifted for.\<close>

record Argument =
  arg_no :: nat
  arg_type :: ir_type

record Arch =
  address_size :: nat

text \<open>The CFG structures of the disassembler: pointers that may be null are options.\<close>

record NativeInstructionXref =
  target_ea :: "64 word"
  mask :: "64 word"

record NativeInstruction =
  mem :: "NativeInstructionXref option"
  imm_xref :: "NativeInstructionXref option"
  disp :: "NativeInstructionXref option"

text \<open>
  \<^verbatim>\<open>ctx.cfg_module->TryGetSegment(ea)\<close> is not in the source files; the context
  carries whether it finds a segment.
\<close>

record TranslationContext =
  cfg_inst :: "NativeInstruction option"
  TryGetSegment :: "64 word \<Rightarrow> bool"

text \<open>
  The IR values the lifter hands back. The generic operand lifters of the base class
  \<^verbatim>\<open>remill::InstructionLifter\<close> are library code: their results are kept as
  uninterpreted terms over the argument and the operand they were called with.
\<close>

datatype ir_value =
    XrefInCode ir_type "64 word"
  | RemillImmediateOperand Argument Operand
  | RemillAddressOperand Argument Operand
  | RemillOtherOperand Argument Operand
  | CreateTrunc ir_value ir_type
  | CreateAdd ir_value ir_value

fun getType :: "ir_value \<Rightarrow> ir_type" where
  "getType (XrefInCode t ea) = t"
| "getType (RemillImmediateOperand arg op) = arg_type arg"
| "getType (RemillAddressOperand arg op) = arg_type arg"
| "getType (RemillOtherOperand arg op) = arg_type arg"
| "getType (CreateTrunc v t) = t"
| "getType (CreateAdd a b) = getType a"

text \<open>
  Modelled from the spec: \<^verbatim>\<open>LiftXrefInCode\<close> is declared in mcsema/BC/Util.h and
  defined outside the source files. The spec (4.1) has the resolver "produce the address
  value to substitute into the IR": an integer of the architecture's address width that
  stands for the address.
\<close>

definition LiftXrefInCode :: "Arch \<Rightarrow> 64 word \<Rightarrow> ir_value" where
  "LiftXrefInCode arch ea = XrefInCode (IntegerTy (address_size arch)) ea"

datatype diagnostic =
    UnusedMemoryReference "64 word" Instruction
  | UnusedImmediateReference "64 word" Instruction
  | UnusedDisplacementReference "64 word" Instruction
  | MissedCrossReferenceCandidate Operand Instruction
  | IncorrectlyDecodedMemoryOperand Operand "64 word"

datatype error =
    CheckFailed string
  | NullDereference
  | UseAfterFree
  | OperandOutOfRange
  | AssertionFailed string

text \<open>The members of \<^verbatim>\<open>mcsema::InstructionLifter\<close>, and the log it writes to.\<close>

record InstructionLifter =
  mem_ref :: "ir_value option"
  imm_ref :: "ir_value option"
  disp_ref :: "ir_value option"
  mem_ref_used :: bool
  disp_ref_used :: bool
  imm_ref_used :: bool
  log :: "diagnostic list"

datatype LiftStatus =
  kLiftedInvalidInstruction | kLiftedUnsupportedInstruction | kLiftedInstruction

subsection \<open>The operand lifters\<close>

definition GetAddress :: "Arch \<Rightarrow> NativeInstructionXref option \<Rightarrow> ir_value option" where
  "GetAddress arch cfg_xref =
     (case cfg_xref of
        None \<Rightarrow> None
      | Some x \<Rightarrow>
          if mask x \<noteq> 0 then Some (LiftXrefInCode arch (target_ea x AND mask x))
          else Some (LiftXrefInCode arch (target_ea x)))"

definition LiftImmediateOperand ::
  "TranslationContext \<Rightarrow> Arch \<Rightarrow> DataLayout \<Rightarrow> Instruction \<Rightarrow> Argument \<Rightarrow> Operand
    \<Rightarrow> InstructionLifter \<Rightarrow> error + (ir_value \<times> InstructionLifter)" where
  "LiftImmediateOperand ctx arch data_layout inst arg op st =
     (let a_type = arg_type arg in
      case (imm_ref st, imm_ref_used st) of
        (Some r, False) \<Rightarrow>
          (let st1 = st\<lparr>imm_ref_used := True\<rparr>;
               arg_size = getTypeSizeInBits data_layout a_type
           in if \<not> arg_size \<le> address_size arch
              then Inl (CheckFailed ''Immediate operand is wider than the architecture pointer size'')
              else if a_type \<noteq> getType r \<and> arg_size < address_size arch
              then (let t = CreateTrunc r a_type in Inr (t, st1\<lparr>imm_ref := Some t\<rparr>))
              else Inr (r, st1))
      | _ \<Rightarrow>
          (let st1 =
             (if op_size op = address_size arch \<and> 4096 \<le> imm_val (imm op) then
                (if TryGetSegment ctx (imm_val (imm op))
                 then st\<lparr>log := log st @ [MissedCrossReferenceCandidate op inst]\<rparr>
                 else st)
              else st)
           in Inr (RemillImmediateOperand arg op, st1)))"

text \<open>
  \<^verbatim>\<open>LiftAddressOperand\<close> takes the operand by reference and may clear its
  displacement, so the operand is returned with the value.
\<close>

definition LiftAddressOperand ::
  "TranslationContext \<Rightarrow> Instruction \<Rightarrow> Argument \<Rightarrow> Operand \<Rightarrow> InstructionLifter
    \<Rightarrow> error + (ir_value \<times> Operand \<times> InstructionLifter)" where
  "LiftAddressOperand ctx inst arg op st =
     (let m = addr op;
          base = reg_name (base_reg m);
          index = reg_name (index_reg m);
          generic = Inr (RemillAddressOperand arg op, op, st)
      in
      if IsControlFlowTarget m then generic
      else if (base = [] \<and> index = []) \<or> (base = ''PC'' \<and> index = []) then
        (case mem_ref st of
           Some r \<Rightarrow> Inr (r, op, st\<lparr>mem_ref_used := True\<rparr>)
         | None \<Rightarrow>
            (case disp_ref st of
               Some d \<Rightarrow> Inr (d, op, st\<lparr>disp_ref_used := True\<rparr>)
             | None \<Rightarrow> generic))
      else if (base = [] \<and> index = []) \<or> (base = ''NEXT_PC'' \<and> index = []) then
        (case mem_ref st of
           Some r \<Rightarrow> Inr (r, op, st\<lparr>mem_ref_used := True\<rparr>)
         | None \<Rightarrow>
            (case disp_ref st of
               Some d \<Rightarrow> Inr (d, op, st\<lparr>disp_ref_used := True\<rparr>)
             | None \<Rightarrow> generic))
      else
        (case disp_ref st of
           Some d \<Rightarrow>
             (let op1 = op\<lparr>addr := m\<lparr>displacement := 0\<rparr>\<rparr>;
                  dynamic_addr = RemillAddressOperand arg op1
              in Inr (CreateAdd dynamic_addr d, op1, st\<lparr>disp_ref_used := True\<rparr>))
         | None \<Rightarrow>
            (case mem_ref st of
               None \<Rightarrow> generic
             | Some r \<Rightarrow>
                (case cfg_inst ctx of
                   None \<Rightarrow> Inl NullDereference
                 | Some ci \<Rightarrow>
                    (case mem ci of
                       None \<Rightarrow> Inl NullDereference
                     | Some x \<Rightarrow>
                        if displacement m = target_ea x then
                          (let st1 = st\<lparr>log := log st @ [IncorrectlyDecodedMemoryOperand op (pc inst)],
                                         mem_ref_used := True\<rparr>;
                               op1 = op\<lparr>addr := m\<lparr>displacement := 0\<rparr>\<rparr>;
                               dynamic_addr = RemillAddressOperand arg op1
                           in Inr (CreateAdd dynamic_addr r, op1, st1))
                        else generic)))))"


subsection \<open>Lifting one instruction\<close>

text \<open>
  \<^verbatim>\<open>remill::InstructionLifter::LiftIntoBlock\<close> is library code. Towards this class
  it does two things: it reports a status, and it lifts operands of the instruction, in
  order, through the virtual operand lifters that this class overrides. What the
  architecture semantics decides (the status, and the operands to lift with the argument
  of the semantics function each one is lifted for) is the parameter \<open>sem\<close>.
\<close>

definition LiftOperand ::
  "TranslationContext \<Rightarrow> Arch \<Rightarrow> DataLayout \<Rightarrow> Instruction \<Rightarrow> Argument \<Rightarrow> Operand
    \<Rightarrow> InstructionLifter \<Rightarrow> error + (ir_value \<times> InstructionLifter)" where
  "LiftOperand ctx arch data_layout inst arg op st =
     (case op_type op of
        kTypeImmediate \<Rightarrow> LiftImmediateOperand ctx arch data_layout inst arg op st
      | kTypeAddress \<Rightarrow>
          (case LiftAddressOperand ctx inst arg op st of
             Inl e \<Rightarrow> Inl e
           | Inr (v, op1, st1) \<Rightarrow> Inr (v, st1))
      | _ \<Rightarrow> Inr (RemillOtherOperand arg op, st))"

fun LiftOperands ::
  "TranslationContext \<Rightarrow> Arch \<Rightarrow> DataLayout \<Rightarrow> Instruction \<Rightarrow> (Argument \<times> Operand) list
    \<Rightarrow> InstructionLifter \<Rightarrow> error + (ir_value list \<times> InstructionLifter)" where
  "LiftOperands ctx arch data_layout inst [] st = Inr ([], st)"
| "LiftOperands ctx arch data_layout inst ((arg, op) # rest) st =
     (case LiftOperand ctx arch data_layout inst arg op st of
        Inl e \<Rightarrow> Inl e
      | Inr (v, st1) \<Rightarrow>
          (case LiftOperands ctx arch data_layout inst rest st1 of
             Inl e \<Rightarrow> Inl e
           | Inr (vs, st2) \<Rightarrow> Inr (v # vs, st2)))"

type_synonym semantics = "Instruction \<Rightarrow> LiftStatus \<times> (Argument \<times> Operand) list"

definition remill_LiftIntoBlock ::
  "semantics \<Rightarrow> TranslationContext \<Rightarrow> Arch \<Rightarrow> DataLayout \<Rightarrow> Instruction
    \<Rightarrow> InstructionLifter \<Rightarrow> error + (LiftStatus \<times> InstructionLifter)" where
  "remill_LiftIntoBlock sem ctx arch data_layout inst st =
     (case LiftOperands ctx arch data_layout inst (snd (sem inst)) st of
        Inl e \<Rightarrow> Inl e
      | Inr (vs, st1) \<Rightarrow> Inr (fst (sem inst), st1))"

text \<open>The first part of \<^verbatim>\<open>LiftIntoBlock\<close>: fetch the three references, clear the flags.\<close>

definition fetch_refs :: "TranslationContext \<Rightarrow> Arch \<Rightarrow> InstructionLifter \<Rightarrow> InstructionLifter" where
  "fetch_refs ctx arch st =
     (let st1 =
        (case cfg_inst ctx of
           Some ci \<Rightarrow> st\<lparr>mem_ref := GetAddress arch (mem ci),
                          imm_ref := GetAddress arch (imm_xref ci),
                          disp_ref := GetAddress arch (disp ci)\<rparr>
         | None \<Rightarrow> st\<lparr>mem_ref := None, imm_ref := None, disp_ref := None\<rparr>)
      in st1\<lparr>mem_ref_used := False, disp_ref_used := False, imm_ref_used := False\<rparr>)"

text \<open>
  One of the three closing checks: \<^verbatim>\<open>if (ref && !ref_used) LOG(ERROR) << ...
  ctx.cfg_inst->sel->target_ea ...\<close>. The message reads the target through two pointers.
\<close>

definition report_unused ::
  "TranslationContext \<Rightarrow> ir_value option \<Rightarrow> bool
    \<Rightarrow> (NativeInstruction \<Rightarrow> NativeInstructionXref option) \<Rightarrow> (64 word \<Rightarrow> diagnostic)
    \<Rightarrow> InstructionLifter \<Rightarrow> error + InstructionLifter" where
  "report_unused ctx r used sel mk st =
     (if r \<noteq> None \<and> \<not> used then
        (case cfg_inst ctx of
           None \<Rightarrow> Inl NullDereference
         | Some ci \<Rightarrow>
            (case sel ci of
               None \<Rightarrow> Inl NullDereference
             | Some x \<Rightarrow> Inr (st\<lparr>log := log st @ [mk (target_ea x)]\<rparr>)))
      else Inr st)"

definition LiftIntoBlock ::
  "semantics \<Rightarrow> TranslationContext \<Rightarrow> Arch \<Rightarrow> DataLayout \<Rightarrow> Instruction
    \<Rightarrow> InstructionLifter \<Rightarrow> error + (LiftStatus \<times> InstructionLifter)" where
  "LiftIntoBlock sem ctx arch data_layout inst st =
     (case remill_LiftIntoBlock sem ctx arch data_layout inst (fetch_refs ctx arch st) of
        Inl e \<Rightarrow> Inl e
      | Inr (status, st1) \<Rightarrow>
          if kLiftedInstruction = status then
            (case report_unused ctx (mem_ref st1) (mem_ref_used st1) mem
                    (\<lambda>ea. UnusedMemoryReference ea inst) st1 of
               Inl e \<Rightarrow> Inl e
             | Inr st2 \<Rightarrow>
                (case report_unused ctx (imm_ref st2) (imm_ref_used st2) imm_xref
                        (\<lambda>ea. UnusedImmediateReference ea inst) st2 of
                   Inl e \<Rightarrow> Inl e
                 | Inr st3 \<Rightarrow>
                    (case report_unused ctx (disp_ref st3) (disp_ref_used st3) disp
                            (\<lambda>ea. UnusedDisplacementReference ea inst) st3 of
                       Inl e \<Rightarrow> Inl e
                     | Inr st4 \<Rightarrow> Inr (status, st4))))
          else Inr (status, st1))"

text \<open>
  The address-operand lifter with its two program-counter branches merged into one, as
  claim C10 words it; everything else as in \<open>LiftAddressOperand\<close>.
\<close>

definition LiftAddressOperand_merged ::
  "TranslationContext \<Rightarrow> Instruction \<Rightarrow> Argument \<Rightarrow> Operand \<Rightarrow> InstructionLifter
    \<Rightarrow> error + (ir_value \<times> Operand \<times> InstructionLifter)" where
  "LiftAddressOperand_merged ctx inst arg op st =
     (let m = addr op;
          base = reg_name (base_reg m);
          index = reg_name (index_reg m);
          generic = Inr (RemillAddressOperand arg op, op, st)
      in
      if IsControlFlowTarget m then generic
      else if index = [] \<and> (base = [] \<or> base = ''PC'' \<or> base = ''NEXT_PC'') then
        (case mem_ref st of
           Some r \<Rightarrow> Inr (r, op, st\<lparr>mem_ref_used := True\<rparr>)
         | None \<Rightarrow>
            (case disp_ref st of
               Some d \<Rightarrow> Inr (d, op, st\<lparr>disp_ref_used := True\<rparr>)
             | None \<Rightarrow> generic))
      else
        (case disp_ref st of
           Some d \<Rightarrow>
             (let op1 = op\<lparr>addr := m\<lparr>displacement := 0\<rparr>\<rparr>;
                  dynamic_addr = RemillAddressOperand arg op1
              in Inr (CreateAdd dynamic_addr d, op1, st\<lparr>disp_ref_used := True\<rparr>))
         | None \<Rightarrow>
            (case mem_ref st of
               None \<Rightarrow> generic
             | Some r \<Rightarrow>
                (case cfg_inst ctx of
                   None \<Rightarrow> Inl NullDereference
                 | Some ci \<Rightarrow>
                    (case mem ci of
                       None \<Rightarrow> Inl NullDereference
                     | Some x \<Rightarrow>
                        if displacement m = target_ea x then
                          (let st1 = st\<lparr>log := log st @ [IncorrectlyDecodedMemoryOperand op (pc inst)],
                                         mem_ref_used := True\<rparr>;
                               op1 = op\<lparr>addr := m\<lparr>displacement := 0\<rparr>\<rparr>;
                               dynamic_addr = RemillAddressOperand arg op1
                           in Inr (CreateAdd dynamic_addr r, op1, st1))
                        else generic)))))"

text \<open>
  The fetched references come from the CFG entry of the instruction: a reference that is
  present has its cross-reference record behind it. The closing checks of
  \<open>LiftIntoBlock\<close> read the record of every reference they report.
\<close>

definition refs_backed :: "TranslationContext \<Rightarrow> InstructionLifter \<Rightarrow> bool" where
  "refs_backed ctx st =
     ((mem_ref st \<noteq> None \<longrightarrow> (\<exists>ci x. cfg_inst ctx = Some ci \<and> mem ci = Some x)) \<and>
      (imm_ref st \<noteq> None \<longrightarrow> (\<exists>ci x. cfg_inst ctx = Some ci \<and> imm_xref ci = Some x)) \<and>
      (disp_ref st \<noteq> None \<longrightarrow> (\<exists>ci x. cfg_inst ctx = Some ci \<and> disp ci = Some x)))"

section \<open>The module optimizer (mcsema/BC/Optimize.cpp)\<close>

subsection \<open>The module\<close>

text \<open>
  The part of an LLVM module, and of the context that owns its constants, that the
  optimizer's stages read and write. An instruction is known by its identity (the
  pointer of the C++ code), a function and a global variable by their names, which are
  unique in a module. A function body is the sequence of its instructions; the stages
  below neither read nor change where one basic block ends and the next begins. The
  operands of a call are its arguments followed by the callee, as LLVM stores them.

  A constant expression is owned by the \<^verbatim>\<open>LLVMContext\<close>, which holds each one once
  however often the module mentions it, and keeps it when nothing mentions it any more.
  \<open>context_constants\<close> lists the constant expressions that the context holds; in a
  state of LLVM every constant expression that the module mentions is among them, with
  the constant expressions it is built from (\<open>context_closed\<close> below). Of the
  constants that have operands the model has the cast expressions, which are the ones
  the code looks through; a constant array or struct is not a value here.
\<close>

datatype linkage = ExternalLinkage | InternalLinkage | AppendingLinkage

datatype attribute = NoInline | InlineHint | AlwaysInline

datatype cast_op =
    TruncOp | ZExtOp | SExtOp | FPToUIOp | FPToSIOp | UIToFPOp | SIToFPOp
  | FPTruncOp | FPExtOp | PtrToIntOp | IntToPtrOp | BitCastOp

datatype llvm_value =
    InstV nat
  | ArgV nat
  | FuncV string
  | GlobalV string
  | UndefV ir_type
  | ConstantIntV ir_type int
  | ConstantExprV cast_op llvm_value ir_type

datatype opcode = Call | Load | Store | Cast cast_op | Cmp | Ret | OtherOp string

record llvm_inst =
  inst_id :: nat
  opcode :: opcode
  inst_type :: ir_type
  inst_operands :: "llvm_value list"

record llvm_function =
  fn_name :: string
  return_type :: ir_type
  param_types :: "ir_type list"
  fn_linkage :: linkage
  fn_attributes :: "attribute list"
  body :: "llvm_inst list option"

record global_variable =
  gv_name :: string
  gv_linkage :: linkage
  initializer :: "llvm_value option"

record llvm_module =
  module_functions :: "llvm_function list"
  module_globals :: "global_variable list"
  context_constants :: "llvm_value list"

definition getFunction :: "llvm_module \<Rightarrow> string \<Rightarrow> llvm_function option" where
  "getFunction m name = find (\<lambda>f. fn_name f = name) (module_functions m)"

definition getGlobalVariable :: "llvm_module \<Rightarrow> string \<Rightarrow> global_variable option" where
  "getGlobalVariable m name = find (\<lambda>g. gv_name g = name) (module_globals m)"

definition isDeclaration :: "llvm_function \<Rightarrow> bool" where
  "isDeclaration f = (body f = None)"

definition getParamType :: "llvm_function \<Rightarrow> nat \<Rightarrow> error + ir_type" where
  "getParamType f i =
     (if i < length (param_types f) then Inr (param_types f ! i) else Inl OperandOutOfRange)"

definition body_insts :: "llvm_function \<Rightarrow> llvm_inst list" where
  "body_insts f = (case body f of None \<Rightarrow> [] | Some b \<Rightarrow> b)"

definition all_insts :: "llvm_module \<Rightarrow> llvm_inst list" where
  "all_insts m = concat (map body_insts (module_functions m))"

definition find_inst :: "llvm_module \<Rightarrow> nat \<Rightarrow> llvm_inst option" where
  "find_inst m n = find (\<lambda>i. inst_id i = n) (all_insts m)"

definition map_bodies :: "(llvm_inst list \<Rightarrow> llvm_inst list) \<Rightarrow> llvm_module \<Rightarrow> llvm_module" where
  "map_bodies g m = m\<lparr>module_functions := map (\<lambda>f. f\<lparr>body := map_option g (body f)\<rparr>) (module_functions m)\<rparr>"

subsection \<open>Uses\<close>

text \<open>
  LLVM keeps a use list with every value: one use for every operand slot that holds the
  value. The slots are the operands of the instructions, the initializers of the global
  variables, and the operands of the constant expressions of the context: a constant
  expression built from a value is one user of it, however many instructions or
  initializers hold that expression, and it is a user as long as the context holds it.
  A value inside a constant expression is used by that expression only, not by what
  holds the expression.
\<close>

datatype user =
    InstructionUser llvm_inst
  | ConstantUser llvm_value
  | GlobalVariableUser string

definition operand_users :: "llvm_value \<Rightarrow> user \<Rightarrow> llvm_value \<Rightarrow> user list" where
  "operand_users v owner slot = (if slot = v then [owner] else [])"

definition inst_users :: "llvm_value \<Rightarrow> llvm_inst \<Rightarrow> user list" where
  "inst_users v i = concat (map (operand_users v (InstructionUser i)) (inst_operands i))"

definition global_users :: "llvm_value \<Rightarrow> global_variable \<Rightarrow> user list" where
  "global_users v g =
     (case initializer g of
        None \<Rightarrow> []
      | Some c \<Rightarrow> operand_users v (GlobalVariableUser (gv_name g)) c)"

definition constant_operands :: "llvm_value \<Rightarrow> llvm_value list" where
  "constant_operands c = (case c of ConstantExprV op w t \<Rightarrow> [w] | _ \<Rightarrow> [])"

definition constant_users :: "llvm_value \<Rightarrow> llvm_value \<Rightarrow> user list" where
  "constant_users v c = concat (map (operand_users v (ConstantUser c)) (constant_operands c))"

definition users :: "llvm_module \<Rightarrow> llvm_value \<Rightarrow> user list" where
  "users m v =
     concat (map (inst_users v) (all_insts m)) @
     concat (map (global_users v) (module_globals m)) @
     concat (map (constant_users v) (remdups (context_constants m)))"

text \<open>
  The constant expressions that a value is built from, itself included, and the states
  in which the context holds every constant expression that the module mentions.
\<close>

fun constants_in :: "llvm_value \<Rightarrow> llvm_value list" where
  "constants_in (ConstantExprV c w t) = ConstantExprV c w t # constants_in w"
| "constants_in (InstV n) = []"
| "constants_in (ArgV n) = []"
| "constants_in (FuncV s) = []"
| "constants_in (GlobalV s) = []"
| "constants_in (UndefV t) = []"
| "constants_in (ConstantIntV t k) = []"

definition module_constants :: "llvm_module \<Rightarrow> llvm_value list" where
  "module_constants m =
     concat (map constants_in
       (concat (map inst_operands (all_insts m)) @
        concat (map (\<lambda>g. case initializer g of None \<Rightarrow> [] | Some c \<Rightarrow> [c]) (module_globals m)) @
        context_constants m))"

definition context_closed :: "llvm_module \<Rightarrow> bool" where
  "context_closed m = (set (module_constants m) \<subseteq> set (context_constants m))"

definition getNumUses :: "llvm_module \<Rightarrow> llvm_value \<Rightarrow> nat" where
  "getNumUses m v = length (users m v)"

definition hasNUsesOrMore :: "llvm_module \<Rightarrow> llvm_value \<Rightarrow> nat \<Rightarrow> bool" where
  "hasNUsesOrMore m v n = (n \<le> length (users m v))"

text \<open>The users of a value that are instructions, as the pointers the code stores.\<close>

definition user_insts :: "llvm_module \<Rightarrow> llvm_value \<Rightarrow> nat list" where
  "user_insts m v =
     concat (map (\<lambda>u. case u of InstructionUser i \<Rightarrow> [inst_id i] | _ \<Rightarrow> []) (users m v))"

fun stripPointerCasts :: "llvm_value \<Rightarrow> llvm_value" where
  "stripPointerCasts (ConstantExprV c w t) =
     (if c = BitCastOp then stripPointerCasts w else ConstantExprV c w t)"
| "stripPointerCasts (InstV n) = InstV n"
| "stripPointerCasts (ArgV n) = ArgV n"
| "stripPointerCasts (FuncV s) = FuncV s"
| "stripPointerCasts (GlobalV s) = GlobalV s"
| "stripPointerCasts (UndefV t) = UndefV t"
| "stripPointerCasts (ConstantIntV t k) = ConstantIntV t k"

subsection \<open>The operations of LLVM that the stages call\<close>

text \<open>
  \<^verbatim>\<open>CallInst::getCalledFunction\<close>: the callee operand when it is a function (and not
  a cast of one, or a value computed at run time).
\<close>

definition getCalledFunction :: "llvm_inst \<Rightarrow> string option" where
  "getCalledFunction i =
     (case inst_operands i of
        [] \<Rightarrow> None
      | x # xs \<Rightarrow> (case last (x # xs) of FuncV f \<Rightarrow> Some f | _ \<Rightarrow> None))"

text \<open>
  An instruction that has been erased is gone from the module; going through a pointer
  to it is undefined in C++, and is the error \<open>UseAfterFree\<close> here. An argument index
  past the arguments of the call is \<open>OperandOutOfRange\<close>.
\<close>

definition getArgOperand :: "llvm_module \<Rightarrow> nat \<Rightarrow> nat \<Rightarrow> error + llvm_value" where
  "getArgOperand m call_inst n =
     (case find_inst m call_inst of
        None \<Rightarrow> Inl UseAfterFree
      | Some c \<Rightarrow>
          if Suc n < length (inst_operands c) then Inr (inst_operands c ! n)
          else Inl OperandOutOfRange)"

definition replace_operand :: "llvm_value \<Rightarrow> llvm_value \<Rightarrow> llvm_inst \<Rightarrow> llvm_inst" where
  "replace_operand old new i =
     i\<lparr>inst_operands := map (\<lambda>v. if v = old then new else v) (inst_operands i)\<rparr>"

text \<open>
  \<^verbatim>\<open>Value::replaceAllUsesWith\<close>, called on instructions only. LLVM asserts that a
  value is not replaced with itself.
\<close>

definition replaceAllUsesWith :: "llvm_value \<Rightarrow> llvm_value \<Rightarrow> llvm_module \<Rightarrow> error + llvm_module" where
  "replaceAllUsesWith old new m =
     (if new = old then Inl (AssertionFailed ''replaceAllUsesWith(this) is NOT valid'')
      else Inr (map_bodies (map (replace_operand old new)) m))"

text \<open>\<^verbatim>\<open>Instruction::eraseFromParent\<close>, and \<^verbatim>\<open>removeFromParent\<close> followed by \<^verbatim>\<open>delete\<close>.\<close>

definition eraseFromParent :: "nat \<Rightarrow> llvm_module \<Rightarrow> error + llvm_module" where
  "eraseFromParent n m =
     (case find_inst m n of
        None \<Rightarrow> Inl UseAfterFree
      | Some i \<Rightarrow> Inr (map_bodies (filter (\<lambda>i. inst_id i \<noteq> n)) m))"

text \<open>
  \<^verbatim>\<open>llvm::IRBuilder<> ir(call_inst)\<close> puts each instruction it creates in front of
  \<open>call_inst\<close>. A new instruction gets an identity that no instruction of the module
  has.
\<close>

definition fresh_id :: "llvm_module \<Rightarrow> nat" where
  "fresh_id m = Suc (foldr max (map inst_id (all_insts m)) 0)"

definition insert_before :: "nat \<Rightarrow> llvm_inst \<Rightarrow> llvm_module \<Rightarrow> llvm_module" where
  "insert_before n new m =
     map_bodies (\<lambda>b. concat (map (\<lambda>i. if inst_id i = n then [new, i] else [i]) b)) m"

definition CreateInst ::
  "nat \<Rightarrow> opcode \<Rightarrow> ir_type \<Rightarrow> llvm_value list \<Rightarrow> llvm_module \<Rightarrow> llvm_value \<times> llvm_module" where
  "CreateInst ip opc t ops m =
     (let n = fresh_id m
      in (InstV n, insert_before ip \<lparr>inst_id = n, opcode = opc, inst_type = t, inst_operands = ops\<rparr> m))"

text \<open>
  \<^verbatim>\<open>IRBuilder::CreateCast\<close>, which \<^verbatim>\<open>CreateIntToPtr\<close>, \<^verbatim>\<open>CreateFPTrunc\<close> and
  \<^verbatim>\<open>CreateFPExt\<close> call. A value that has the target type already is returned as it is.
  The cast of a constant is a constant, made by the builder's constant folder
  (\<^verbatim>\<open>llvm::ConstantFolder\<close>, so \<^verbatim>\<open>llvm::ConstantExpr::getCast\<close>) and inserted nowhere;
  what the folder makes of a constant is the parameter \<open>folder\<close>, and the constant
  expressions of its result are in the context afterwards. Only for a value that is
  neither does the builder insert a cast instruction.

  \<open>getType_value\<close> is the type of a value: of an instruction its result type, of an
  argument the parameter type of the function that the builder inserts into, of a
  constant the type it carries. It is \<open>None\<close> for a pointer to an instruction that is
  gone, which is the error \<open>UseAfterFree\<close> in the builder, and for a function or a
  global variable, whose pointer types this model does not have: the builder meets them
  as constants, and what it returns for them is left to \<open>folder\<close>.
\<close>

definition isa_Constant :: "llvm_value \<Rightarrow> bool" where
  "isa_Constant v = (case v of InstV n \<Rightarrow> False | ArgV n \<Rightarrow> False | _ \<Rightarrow> True)"

definition getParent :: "llvm_module \<Rightarrow> nat \<Rightarrow> llvm_function option" where
  "getParent m n = find (\<lambda>f. n \<in> inst_id ` set (body_insts f)) (module_functions m)"

definition getType_value :: "llvm_module \<Rightarrow> nat \<Rightarrow> llvm_value \<Rightarrow> ir_type option" where
  "getType_value m ip v =
     (case v of
        InstV n \<Rightarrow> map_option inst_type (find_inst m n)
      | ArgV k \<Rightarrow>
          (case getParent m ip of
             None \<Rightarrow> None
           | Some f \<Rightarrow> if k < length (param_types f) then Some (param_types f ! k) else None)
      | UndefV t \<Rightarrow> Some t
      | ConstantIntV t k \<Rightarrow> Some t
      | ConstantExprV c w t \<Rightarrow> Some t
      | FuncV s \<Rightarrow> None
      | GlobalV s \<Rightarrow> None)"

type_synonym constant_folder = "cast_op \<Rightarrow> llvm_value \<Rightarrow> ir_type \<Rightarrow> llvm_value"

definition CreateCast ::
  "constant_folder \<Rightarrow> nat \<Rightarrow> cast_op \<Rightarrow> llvm_value \<Rightarrow> ir_type \<Rightarrow> llvm_module
    \<Rightarrow> error + (llvm_value \<times> llvm_module)" where
  "CreateCast folder ip op v t m =
     (let c = folder op v t;
          folded = Inr (c, m\<lparr>context_constants := context_constants m @ constants_in c\<rparr>)
      in case getType_value m ip v of
           None \<Rightarrow> if isa_Constant v then folded else Inl UseAfterFree
         | Some vt \<Rightarrow>
             if vt = t then Inr (v, m)
             else if isa_Constant v then folded
             else Inr (CreateInst ip (Cast op) t [v] m))"

definition CreateIntToPtr ::
  "constant_folder \<Rightarrow> nat \<Rightarrow> llvm_value \<Rightarrow> ir_type \<Rightarrow> llvm_module
    \<Rightarrow> error + (llvm_value \<times> llvm_module)" where
  "CreateIntToPtr folder ip v t m = CreateCast folder ip IntToPtrOp v t m"

definition CreateFPTrunc ::
  "constant_folder \<Rightarrow> nat \<Rightarrow> llvm_value \<Rightarrow> ir_type \<Rightarrow> llvm_module
    \<Rightarrow> error + (llvm_value \<times> llvm_module)" where
  "CreateFPTrunc folder ip v t m = CreateCast folder ip FPTruncOp v t m"

definition CreateFPExt ::
  "constant_folder \<Rightarrow> nat \<Rightarrow> llvm_value \<Rightarrow> ir_type \<Rightarrow> llvm_module
    \<Rightarrow> error + (llvm_value \<times> llvm_module)" where
  "CreateFPExt folder ip v t m = CreateCast folder ip FPExtOp v t m"

text \<open>\<^verbatim>\<open>CreateLoad(ptr)\<close>: the loaded type is the pointee type of \<open>ptr\<close>, passed here.\<close>

definition CreateLoad :: "nat \<Rightarrow> llvm_value \<Rightarrow> ir_type \<Rightarrow> llvm_module \<Rightarrow> llvm_value \<times> llvm_module" where
  "CreateLoad ip ptr t m = CreateInst ip Load t [ptr] m"

definition CreateStore :: "nat \<Rightarrow> llvm_value \<Rightarrow> llvm_value \<Rightarrow> llvm_module \<Rightarrow> llvm_value \<times> llvm_module" where
  "CreateStore ip v ptr m = CreateInst ip Store VoidTy [v, ptr] m"

definition setLinkage_function :: "string \<Rightarrow> linkage \<Rightarrow> llvm_module \<Rightarrow> llvm_module" where
  "setLinkage_function name l m =
     m\<lparr>module_functions := map (\<lambda>f. if fn_name f = name then f\<lparr>fn_linkage := l\<rparr> else f) (module_functions m)\<rparr>"

definition setLinkage_global :: "string \<Rightarrow> linkage \<Rightarrow> llvm_module \<Rightarrow> llvm_module" where
  "setLinkage_global name l m =
     m\<lparr>module_globals := map (\<lambda>g. if gv_name g = name then g\<lparr>gv_linkage := l\<rparr> else g) (module_globals m)\<rparr>"

text \<open>\<^verbatim>\<open>GlobalVariable::eraseFromParent\<close>: the variable leaves the module, and with it the
  use its initializer made.\<close>

definition eraseFromParent_global :: "string \<Rightarrow> llvm_module \<Rightarrow> llvm_module" where
  "eraseFromParent_global name m = m\<lparr>module_globals := filter (\<lambda>g. gv_name g \<noteq> name) (module_globals m)\<rparr>"

subsection \<open>The stages\<close>

definition CallersOf :: "llvm_module \<Rightarrow> string \<Rightarrow> nat list" where
  "CallersOf m func =
     concat (map (\<lambda>u. case u of
                        InstructionUser call_inst \<Rightarrow>
                          if opcode call_inst = Call \<and> getCalledFunction call_inst = Some func
                          then [inst_id call_inst] else []
                      | _ \<Rightarrow> [])
                 (users m (FuncV func)))"

text \<open>\<^verbatim>\<open>RemoveFunction(llvm::Function *)\<close> and \<^verbatim>\<open>RemoveFunction(const char *)\<close>.\<close>

definition RemoveFunction :: "string \<Rightarrow> llvm_module \<Rightarrow> llvm_module" where
  "RemoveFunction func m =
     (if \<not> hasNUsesOrMore m (FuncV func) 1
      then m\<lparr>module_functions := filter (\<lambda>f. fn_name f \<noteq> func) (module_functions m)\<rparr>
      else m)"

definition RemoveFunction_named :: "string \<Rightarrow> llvm_module \<Rightarrow> llvm_module" where
  "RemoveFunction_named name m =
     (case getFunction m name of
        Some func \<Rightarrow> RemoveFunction name (setLinkage_function name InternalLinkage m)
      | None \<Rightarrow> m)"

text \<open>
  \<^verbatim>\<open>FindISELs\<close>. \<^verbatim>\<open>getParamType\<close> past the parameters of a function type is
  undefined in C++ and an error here. The line it logs when
  \<^verbatim>\<open>__remill_basic_block\<close> is missing is not kept.
\<close>

definition is_isel :: "llvm_module \<Rightarrow> ir_type \<Rightarrow> ir_type \<Rightarrow> global_variable \<Rightarrow> error + bool" where
  "is_isel m mem_type state_type isel =
     (case initializer isel of
        None \<Rightarrow> Inr False
      | Some init \<Rightarrow>
         (case stripPointerCasts init of
            FuncV s \<Rightarrow>
              (case getFunction m s of
                 None \<Rightarrow> Inr False
               | Some sem \<Rightarrow>
                  (case getParamType sem 0 of
                     Inl e \<Rightarrow> Inl e
                   | Inr p0 \<Rightarrow>
                      if mem_type = p0 then
                        (case getParamType sem 1 of
                           Inl e \<Rightarrow> Inl e
                         | Inr p1 \<Rightarrow> Inr (state_type = p1))
                      else Inr False))
          | _ \<Rightarrow> Inr False))"

fun FindISELs_globals ::
  "llvm_module \<Rightarrow> ir_type \<Rightarrow> ir_type \<Rightarrow> global_variable list \<Rightarrow> error + string list" where
  "FindISELs_globals m mem_type state_type [] = Inr []"
| "FindISELs_globals m mem_type state_type (isel # rest) =
     (case is_isel m mem_type state_type isel of
        Inl e \<Rightarrow> Inl e
      | Inr b \<Rightarrow>
         (case FindISELs_globals m mem_type state_type rest of
            Inl e \<Rightarrow> Inl e
          | Inr isels \<Rightarrow> Inr (if b then gv_name isel # isels else isels)))"

definition FindISELs :: "llvm_module \<Rightarrow> error + string list" where
  "FindISELs m =
     (case getFunction m ''__remill_basic_block'' of
        None \<Rightarrow> Inr []
      | Some basic_block \<Rightarrow>
         (case getParamType basic_block 0 of
            Inl e \<Rightarrow> Inl e
          | Inr mem_type \<Rightarrow>
             (case getParamType basic_block 1 of
                Inl e \<Rightarrow> Inl e
              | Inr state_type \<Rightarrow> FindISELs_globals m mem_type state_type (module_globals m))))"

text \<open>
  \<^verbatim>\<open>RemoveISELs\<close>. One run of the \<^verbatim>\<open>for\<close> loop is \<open>RemoveISELs_scan\<close>; the
  \<^verbatim>\<open>while (isels.size())\<close> loop around it need not end, so its result is an option.
\<close>

fun RemoveISELs_scan :: "string list \<Rightarrow> string list \<Rightarrow> llvm_module \<Rightarrow> string list \<times> llvm_module" where
  "RemoveISELs_scan [] next_isels m = (next_isels, m)"
| "RemoveISELs_scan (isel # rest) next_isels m =
     (let m1 = setLinkage_global isel InternalLinkage m
      in if 1 \<ge> getNumUses m1 (GlobalV isel)
         then RemoveISELs_scan rest next_isels (eraseFromParent_global isel m1)
         else RemoveISELs_scan rest (next_isels @ [isel]) m1)"

partial_function (option) RemoveISELs :: "string list \<Rightarrow> llvm_module \<Rightarrow> llvm_module option" where
  "RemoveISELs isels m =
     (if isels = [] then Some m
      else case RemoveISELs_scan isels [] m of
             (next_isels, m1) \<Rightarrow> RemoveISELs next_isels m1)"

text \<open>\<^verbatim>\<open>RemoveIntrinsics\<close>.\<close>

definition RemoveIntrinsics :: "llvm_module \<Rightarrow> llvm_module" where
  "RemoveIntrinsics m =
     (let m1 = (case getGlobalVariable m ''llvm.used'' of
                  Some llvm_used \<Rightarrow> eraseFromParent_global ''llvm.used'' m
                | None \<Rightarrow> m);
          m2 = (case getFunction m1 ''__remill_mark_as_used'' of
                  Some remill_used \<Rightarrow>
                    if isDeclaration remill_used then
                      m1\<lparr>module_functions :=
                           map (\<lambda>f. if fn_name f = ''__remill_mark_as_used''
                                    then f\<lparr>fn_linkage := InternalLinkage,
                                           fn_attributes :=
                                             AlwaysInline # InlineHint #
                                             filter (\<lambda>a. a \<noteq> NoInline) (fn_attributes f),
                                           body := Some [\<lparr>inst_id = fresh_id m1, opcode = Ret,
                                                          inst_type = VoidTy, inst_operands = []\<rparr>]\<rparr>
                                    else f)
                               (module_functions m1)\<rparr>
                    else m1
                | None \<Rightarrow> m1)
      in RemoveFunction_named ''__remill_mark_as_used''
           (RemoveFunction_named ''__remill_function_return''
             (RemoveFunction_named ''__remill_defer_inlining''
               (RemoveFunction_named ''__remill_mark_as_used''
                 (RemoveFunction_named ''__remill_basic_block''
                   (RemoveFunction_named ''__remill_intrinsics'' m2))))))"

text \<open>
  \<^verbatim>\<open>ReplaceBarrier\<close>. \<^verbatim>\<open>remill::kMemoryPointerArgNum\<close> is a constant of remill's
  ABI header, a parameter here.
\<close>

fun ReplaceBarrier_callers :: "nat \<Rightarrow> nat list \<Rightarrow> llvm_module \<Rightarrow> error + llvm_module" where
  "ReplaceBarrier_callers kMemoryPointerArgNum [] m = Inr m"
| "ReplaceBarrier_callers kMemoryPointerArgNum (call_inst # rest) m =
     (case getArgOperand m call_inst kMemoryPointerArgNum of
        Inl e \<Rightarrow> Inl e
      | Inr mem_ptr \<Rightarrow>
         (case replaceAllUsesWith (InstV call_inst) mem_ptr m of
            Inl e \<Rightarrow> Inl e
          | Inr m1 \<Rightarrow>
             (case eraseFromParent call_inst m1 of
                Inl e \<Rightarrow> Inl e
              | Inr m2 \<Rightarrow> ReplaceBarrier_callers kMemoryPointerArgNum rest m2)))"

definition ReplaceBarrier :: "nat \<Rightarrow> string \<Rightarrow> llvm_module \<Rightarrow> error + llvm_module" where
  "ReplaceBarrier kMemoryPointerArgNum name m =
     (case getFunction m name of
        None \<Rightarrow> Inr m
      | Some func \<Rightarrow>
          if \<not> isDeclaration func
          then Inl (CheckFailed ''Cannot lower already implemented memory intrinsic'')
          else ReplaceBarrier_callers kMemoryPointerArgNum (CallersOf m name) m)"

text \<open>\<^verbatim>\<open>ReplaceMemReadOp\<close> and \<^verbatim>\<open>ReplaceMemWriteOp\<close>: two loops over the callers each.\<close>

fun erase_all :: "nat list \<Rightarrow> llvm_module \<Rightarrow> error + llvm_module" where
  "erase_all [] m = Inr m"
| "erase_all (call_inst # rest) m =
     (case eraseFromParent call_inst m of
        Inl e \<Rightarrow> Inl e
      | Inr m1 \<Rightarrow> erase_all rest m1)"

fun ReplaceMemReadOp_callers ::
  "constant_folder \<Rightarrow> llvm_function \<Rightarrow> ir_type \<Rightarrow> nat list \<Rightarrow> llvm_module
    \<Rightarrow> error + llvm_module" where
  "ReplaceMemReadOp_callers folder func val_type [] m = Inr m"
| "ReplaceMemReadOp_callers folder func val_type (call_inst # rest) m =
     (case getArgOperand m call_inst 1 of
        Inl e \<Rightarrow> Inl e
      | Inr address \<Rightarrow>
         (case CreateIntToPtr folder call_inst address (PointerTy val_type) m of
            Inl e \<Rightarrow> Inl e
          | Inr (ptr, m1) \<Rightarrow>
             (let (val, m2) = CreateLoad call_inst ptr val_type m1
              in case (if val_type = X86_FP80Ty
                       then CreateFPTrunc folder call_inst val (return_type func) m2
                       else Inr (val, m2)) of
                   Inl e \<Rightarrow> Inl e
                 | Inr (val1, m3) \<Rightarrow>
                    (case replaceAllUsesWith (InstV call_inst) val1 m3 of
                       Inl e \<Rightarrow> Inl e
                     | Inr m4 \<Rightarrow> ReplaceMemReadOp_callers folder func val_type rest m4))))"

definition ReplaceMemReadOp ::
  "constant_folder \<Rightarrow> string \<Rightarrow> ir_type \<Rightarrow> llvm_module \<Rightarrow> error + llvm_module" where
  "ReplaceMemReadOp folder name val_type m =
     (case getFunction m name of
        None \<Rightarrow> Inr m
      | Some func \<Rightarrow>
          if \<not> isDeclaration func
          then Inl (CheckFailed ''Cannot lower already implemented memory intrinsic'')
          else
            (let callers = CallersOf m name
             in case ReplaceMemReadOp_callers folder func val_type callers m of
                  Inl e \<Rightarrow> Inl e
                | Inr m1 \<Rightarrow>
                   (case erase_all callers m1 of
                      Inl e \<Rightarrow> Inl e
                    | Inr m2 \<Rightarrow> Inr (RemoveFunction name m2))))"

fun ReplaceMemWriteOp_callers ::
  "constant_folder \<Rightarrow> ir_type \<Rightarrow> nat list \<Rightarrow> llvm_module \<Rightarrow> error + llvm_module" where
  "ReplaceMemWriteOp_callers folder val_type [] m = Inr m"
| "ReplaceMemWriteOp_callers folder val_type (call_inst # rest) m =
     (case getArgOperand m call_inst 0 of
        Inl e \<Rightarrow> Inl e
      | Inr mem_ptr \<Rightarrow>
         (case getArgOperand m call_inst 1 of
            Inl e \<Rightarrow> Inl e
          | Inr address \<Rightarrow>
             (case getArgOperand m call_inst 2 of
                Inl e \<Rightarrow> Inl e
              | Inr val \<Rightarrow>
                 (case CreateIntToPtr folder call_inst address (PointerTy val_type) m of
                    Inl e \<Rightarrow> Inl e
                  | Inr (ptr, m1) \<Rightarrow>
                     (case (if val_type = X86_FP80Ty
                            then CreateFPExt folder call_inst val val_type m1
                            else Inr (val, m1)) of
                        Inl e \<Rightarrow> Inl e
                      | Inr (val1, m2) \<Rightarrow>
                         (let (st, m3) = CreateStore call_inst val1 ptr m2
                          in case replaceAllUsesWith (InstV call_inst) mem_ptr m3 of
                               Inl e \<Rightarrow> Inl e
                             | Inr m4 \<Rightarrow>
                                 ReplaceMemWriteOp_callers folder val_type rest m4))))))"

definition ReplaceMemWriteOp ::
  "constant_folder \<Rightarrow> string \<Rightarrow> ir_type \<Rightarrow> llvm_module \<Rightarrow> error + llvm_module" where
  "ReplaceMemWriteOp folder name val_type m =
     (case getFunction m name of
        None \<Rightarrow> Inr m
      | Some func \<Rightarrow>
          if \<not> isDeclaration func
          then Inl (CheckFailed ''Cannot lower already implemented memory intrinsic'')
          else
            (let callers = CallersOf m name
             in case ReplaceMemWriteOp_callers folder val_type callers m of
                  Inl e \<Rightarrow> Inl e
                | Inr m1 \<Rightarrow>
                   (case erase_all callers m1 of
                      Inl e \<Rightarrow> Inl e
                    | Inr m2 \<Rightarrow> Inr (RemoveFunction name m2))))"

text \<open>\<^verbatim>\<open>LowerMemOps\<close>: the fourteen calls, in the order of the source.\<close>

datatype mem_op = MemRead | MemWrite

definition mem_intrinsics :: "(mem_op \<times> string \<times> ir_type) list" where
  "mem_intrinsics =
     [(MemRead, ''__remill_read_memory_8'', IntegerTy 8),
      (MemRead, ''__remill_read_memory_16'', IntegerTy 16),
      (MemRead, ''__remill_read_memory_32'', IntegerTy 32),
      (MemRead, ''__remill_read_memory_64'', IntegerTy 64),
      (MemRead, ''__remill_read_memory_f32'', FloatTy),
      (MemRead, ''__remill_read_memory_f64'', DoubleTy),
      (MemWrite, ''__remill_write_memory_8'', IntegerTy 8),
      (MemWrite, ''__remill_write_memory_16'', IntegerTy 16),
      (MemWrite, ''__remill_write_memory_32'', IntegerTy 32),
      (MemWrite, ''__remill_write_memory_64'', IntegerTy 64),
      (MemWrite, ''__remill_write_memory_f32'', FloatTy),
      (MemWrite, ''__remill_write_memory_f64'', DoubleTy),
      (MemRead, ''__remill_read_memory_f80'', X86_FP80Ty),
      (MemWrite, ''__remill_write_memory_f80'', X86_FP80Ty)]"

definition ReplaceMemOp ::
  "constant_folder \<Rightarrow> mem_op \<times> string \<times> ir_type \<Rightarrow> llvm_module \<Rightarrow> error + llvm_module" where
  "ReplaceMemOp folder x m =
     (case x of
        (MemRead, name, val_type) \<Rightarrow> ReplaceMemReadOp folder name val_type m
      | (MemWrite, name, val_type) \<Rightarrow> ReplaceMemWriteOp folder name val_type m)"

fun run_stages :: "('a \<Rightarrow> llvm_module \<Rightarrow> error + llvm_module) \<Rightarrow> 'a list \<Rightarrow> llvm_module \<Rightarrow> error + llvm_module" where
  "run_stages stage [] m = Inr m"
| "run_stages stage (x # xs) m =
     (case stage x m of
        Inl e \<Rightarrow> Inl e
      | Inr m1 \<Rightarrow> run_stages stage xs m1)"

definition LowerMemOps :: "constant_folder \<Rightarrow> llvm_module \<Rightarrow> error + llvm_module" where
  "LowerMemOps folder m = run_stages (ReplaceMemOp folder) mem_intrinsics m"

definition barrier_intrinsics :: "string list" where
  "barrier_intrinsics =
     [''__remill_barrier_load_load'', ''__remill_barrier_load_store'',
      ''__remill_barrier_store_load'', ''__remill_barrier_store_store'',
      ''__remill_barrier_atomic_begin'', ''__remill_barrier_atomic_end'']"

text \<open>
  \<^verbatim>\<open>ReplaceUndefIntrinsic\<close>. The work list is a \<^verbatim>\<open>std::set<llvm::User *>\<close>: a
  list without repetitions here, walked in the order of insertion (the C++ set walks in
  the order of the addresses). \<open>ReplaceUndefIntrinsic_callers\<close> is the loop over the
  calls, \<open>propagate_undef_round\<close> one run of the inner \<^verbatim>\<open>for\<close> loop, and
  \<open>propagate_undef\<close> the \<^verbatim>\<open>while\<close> loop.
\<close>

definition set_insert_all :: "nat list \<Rightarrow> nat list \<Rightarrow> nat list" where
  "set_insert_all xs s = fold List.insert xs s"

definition isa_CmpInst :: "llvm_inst \<Rightarrow> bool" where
  "isa_CmpInst i = (opcode i = Cmp)"

definition isa_CastInst :: "llvm_inst \<Rightarrow> bool" where
  "isa_CastInst i = (case opcode i of Cast c \<Rightarrow> True | _ \<Rightarrow> False)"

definition isa_StoreInst :: "llvm_inst \<Rightarrow> bool" where
  "isa_StoreInst i = (opcode i = Store)"

fun ReplaceUndefIntrinsic_callers ::
  "llvm_value \<Rightarrow> nat list \<Rightarrow> nat list \<Rightarrow> llvm_module \<Rightarrow> error + (nat list \<times> llvm_module)" where
  "ReplaceUndefIntrinsic_callers undef_val [] work_list m = Inr (work_list, m)"
| "ReplaceUndefIntrinsic_callers undef_val (call_inst # rest) work_list m =
     (let work_list1 = set_insert_all (user_insts m (InstV call_inst)) work_list
      in case replaceAllUsesWith (InstV call_inst) undef_val m of
           Inl e \<Rightarrow> Inl e
         | Inr m1 \<Rightarrow>
            (case eraseFromParent call_inst m1 of
               Inl e \<Rightarrow> Inl e
             | Inr m2 \<Rightarrow> ReplaceUndefIntrinsic_callers undef_val rest work_list1 m2))"

fun propagate_undef_round ::
  "nat list \<Rightarrow> nat list \<Rightarrow> nat list \<Rightarrow> llvm_module \<Rightarrow> error + (nat list \<times> nat list \<times> llvm_module)" where
  "propagate_undef_round [] next_work_list dead_stores m = Inr (next_work_list, dead_stores, m)"
| "propagate_undef_round (inst # rest) next_work_list dead_stores m =
     (case find_inst m inst of
        None \<Rightarrow> Inl UseAfterFree
      | Some i \<Rightarrow>
          if isa_CmpInst i \<or> isa_CastInst i then
            (let next1 = set_insert_all (user_insts m (InstV inst)) next_work_list
             in case replaceAllUsesWith (InstV inst) (UndefV (inst_type i)) m of
                  Inl e \<Rightarrow> Inl e
                | Inr m1 \<Rightarrow> propagate_undef_round rest next1 dead_stores m1)
          else if isa_StoreInst i then
            propagate_undef_round rest next_work_list (dead_stores @ [inst]) m
          else propagate_undef_round rest next_work_list dead_stores m)"

text \<open>
  The \<^verbatim>\<open>while\<close> loop ends: a round that puts anything on the next work list has
  replaced at least one use of an instruction by \<open>undef\<close>, and no round adds such a use.
\<close>

definition inst_use_count :: "llvm_module \<Rightarrow> nat" where
  "inst_use_count m =
     length (filter (\<lambda>v. case v of InstV n \<Rightarrow> True | _ \<Rightarrow> False)
               (concat (map inst_operands (all_insts m))))"

function propagate_undef ::
  "nat list \<Rightarrow> nat list \<Rightarrow> llvm_module \<Rightarrow> error + (nat list \<times> llvm_module)" where
  "propagate_undef work_list dead_stores m =
     (if work_list = [] then Inr (dead_stores, m)
      else case propagate_undef_round work_list [] dead_stores m of
             Inl e \<Rightarrow> Inl e
           | Inr (next_work_list, dead_stores1, m1) \<Rightarrow>
               propagate_undef next_work_list dead_stores1 m1)"
  by pat_completeness auto

lemma all_insts_map_bodies_map:
  "all_insts (map_bodies (map g) m) = map g (all_insts m)"
proof -
  have "body_insts (f\<lparr>body := map_option (map g) (body f)\<rparr>) = map g (body_insts f)" for f
    by (simp add: body_insts_def split: option.splits)
  then show ?thesis
    by (simp add: all_insts_def map_bodies_def map_concat comp_def)
qed

lemma all_insts_replace:
  "replaceAllUsesWith old new m = Inr m1 \<Longrightarrow>
   all_insts m1 = map (replace_operand old new) (all_insts m)"
  by (auto simp: replaceAllUsesWith_def all_insts_map_bodies_map split: if_splits)

lemma operands_replace:
  "concat (map inst_operands (map (replace_operand old new) xs)) =
   map (\<lambda>v. if v = old then new else v) (concat (map inst_operands xs))"
  by (induction xs) (simp_all add: replace_operand_def)

lemma filter_subst_le:
  assumes "\<not> P b"
  shows "length (filter P (map (\<lambda>v. if v = a then b else v) xs)) \<le> length (filter P xs)"
  using assms by (induction xs) auto

lemma filter_subst_less:
  assumes "\<not> P b" and "P a" and "a \<in> set xs"
  shows "length (filter P (map (\<lambda>v. if v = a then b else v) xs)) < length (filter P xs)"
  using assms
proof (induction xs)
  case Nil
  then show ?case by simp
next
  case (Cons x xs)
  show ?case
  proof (cases "x = a")
    case True
    then show ?thesis
      using Cons.prems filter_subst_le [of P b a xs] by simp
  next
    case False
    then show ?thesis
      using Cons by auto
  qed
qed

lemma user_insts_slot:
  assumes "user_insts m (InstV n) \<noteq> []"
  shows "InstV n \<in> set (concat (map inst_operands (all_insts m)))"
proof -
  from assms have "\<exists>u\<in>set (users m (InstV n)).
      (case u of InstructionUser i \<Rightarrow> [inst_id i] | _ \<Rightarrow> []) \<noteq> []"
    by (auto simp: user_insts_def)
  then obtain u where a: "u \<in> set (users m (InstV n))"
      and b: "(case u of InstructionUser i \<Rightarrow> [inst_id i] | _ \<Rightarrow> []) \<noteq> []"
    by blast
  have "\<exists>i. u = InstructionUser i"
    using b by (cases u rule: user.exhaust) simp_all
  with a obtain i where u: "InstructionUser i \<in> set (users m (InstV n))"
    by blast
  have g: "InstructionUser i \<notin> set (global_users (InstV n) g)" for g
    by (auto simp: global_users_def operand_users_def split: option.splits if_splits)
  have k: "InstructionUser i \<notin> set (constant_users (InstV n) c)" for c
    by (auto simp: constant_users_def operand_users_def split: if_splits)
  from u g k obtain j where j: "j \<in> set (all_insts m)" and "InstructionUser i \<in> set (inst_users (InstV n) j)"
    by (auto simp: users_def)
  then obtain s where "s \<in> set (inst_operands j)" and "InstructionUser i \<in> set (operand_users (InstV n) (InstructionUser j) s)"
    by (auto simp: inst_users_def)
  then have "InstV n \<in> set (inst_operands j)"
    by (auto simp: operand_users_def split: if_splits)
  with j show ?thesis by auto
qed

lemma inst_use_count_undef:
  assumes "replaceAllUsesWith (InstV n) (UndefV t) m = Inr m1"
  shows "inst_use_count m1 \<le> inst_use_count m"
    and "user_insts m (InstV n) \<noteq> [] \<Longrightarrow> inst_use_count m1 < inst_use_count m"
proof -
  show "inst_use_count m1 \<le> inst_use_count m"
    unfolding inst_use_count_def all_insts_replace [OF assms] operands_replace
    by (rule filter_subst_le) simp
  assume "user_insts m (InstV n) \<noteq> []"
  then have "InstV n \<in> set (concat (map inst_operands (all_insts m)))"
    by (rule user_insts_slot)
  then show "inst_use_count m1 < inst_use_count m"
    unfolding inst_use_count_def all_insts_replace [OF assms] operands_replace
    by (intro filter_subst_less) simp_all
qed

lemma set_insert_all_same: "set_insert_all [] s = s"
  by (simp add: set_insert_all_def)

lemma propagate_undef_round_count:
  assumes "propagate_undef_round work next_work_list dead m = Inr (next1, dead1, m1)"
  shows "inst_use_count m1 < inst_use_count m \<or>
         (inst_use_count m1 = inst_use_count m \<and> next1 = next_work_list)"
  using assms
proof (induction work arbitrary: next_work_list dead m)
  case Nil
  then show ?case by simp
next
  case (Cons inst rest)
  from Cons.prems obtain i where i: "find_inst m inst = Some i"
    by (auto split: option.splits)
  show ?case
  proof (cases "isa_CmpInst i \<or> isa_CastInst i")
    case True
    let ?us = "user_insts m (InstV inst)"
    from Cons.prems i True obtain m2 where
      r: "replaceAllUsesWith (InstV inst) (UndefV (inst_type i)) m = Inr m2" and
      rest: "propagate_undef_round rest (set_insert_all ?us next_work_list) dead m2 = Inr (next1, dead1, m1)"
      by (auto simp: Let_def split: sum.splits)
    from Cons.IH [OF rest] have
      ih: "inst_use_count m1 < inst_use_count m2 \<or>
           (inst_use_count m1 = inst_use_count m2 \<and> next1 = set_insert_all ?us next_work_list)" .
    show ?thesis
    proof (cases "?us = []")
      case True
      with ih inst_use_count_undef(1) [OF r] show ?thesis
        by (auto simp: set_insert_all_same)
    next
      case False
      with ih inst_use_count_undef(2) [OF r] show ?thesis
        by auto
    qed
  next
    case False
    with Cons.prems i have
      "propagate_undef_round rest next_work_list (dead @ [inst]) m = Inr (next1, dead1, m1) \<or>
       propagate_undef_round rest next_work_list dead m = Inr (next1, dead1, m1)"
      by (auto split: if_splits)
    then show ?thesis
      using Cons.IH by blast
  qed
qed

termination propagate_undef
proof (relation "measures [\<lambda>(w, d, m). inst_use_count m, \<lambda>(w, d, m). length w]")
  show "wf (measures [\<lambda>(w, d, m). inst_use_count m, \<lambda>(w, d, m). length w])"
    by simp
next
  fix work_list dead_stores :: "nat list" and m :: llvm_module and x2 x y xa ya
  assume w: "work_list \<noteq> []"
    and r: "propagate_undef_round work_list [] dead_stores m = Inr x2"
    and x: "(x, y) = x2" and y: "(xa, ya) = y"
  from r x y have "propagate_undef_round work_list [] dead_stores m = Inr (x, xa, ya)"
    by simp
  from propagate_undef_round_count [OF this] w
  show "((x, xa, ya), work_list, dead_stores, m)
        \<in> measures [\<lambda>(w, d, m). inst_use_count m, \<lambda>(w, d, m). length w]"
    by auto
qed

definition ReplaceUndefIntrinsic :: "llvm_function \<Rightarrow> llvm_module \<Rightarrow> error + llvm_module" where
  "ReplaceUndefIntrinsic function m =
     (let call_insts = CallersOf m (fn_name function);
          undef_val = UndefV (return_type function)
      in case ReplaceUndefIntrinsic_callers undef_val call_insts [] m of
           Inl e \<Rightarrow> Inl e
         | Inr (work_list, m1) \<Rightarrow>
            (case propagate_undef work_list [] m1 of
               Inl e \<Rightarrow> Inl e
             | Inr (dead_stores, m2) \<Rightarrow> erase_all dead_stores m2))"

definition undef_intrinsics :: "string list" where
  "undef_intrinsics =
     [''__remill_undefined_8'', ''__remill_undefined_16'', ''__remill_undefined_32'',
      ''__remill_undefined_64'', ''__remill_undefined_f32'', ''__remill_undefined_f64'']"

definition RemoveUndefFunc :: "llvm_function option \<Rightarrow> llvm_module \<Rightarrow> error + llvm_module" where
  "RemoveUndefFunc undef_func m =
     (case undef_func of
        None \<Rightarrow> Inr m
      | Some f \<Rightarrow>
         (case ReplaceUndefIntrinsic f m of
            Inl e \<Rightarrow> Inl e
          | Inr m1 \<Rightarrow> Inr (RemoveFunction (fn_name f) m1)))"

definition RemoveUndefFuncCalls :: "llvm_module \<Rightarrow> error + llvm_module" where
  "RemoveUndefFuncCalls m = run_stages RemoveUndefFunc (map (getFunction m) undef_intrinsics) m"

text \<open>
  \<^verbatim>\<open>OptimizeModule\<close>. \<^verbatim>\<open>RunO3\<close> runs LLVM's own pass pipeline and is a parameter,
  as the builder's constant folder is.
  The result is \<open>None\<close> when \<open>RemoveISELs\<close> does not return.
\<close>

definition bind_err :: "error + 'a \<Rightarrow> ('a \<Rightarrow> error + 'b) \<Rightarrow> error + 'b" where
  "bind_err x f = (case x of Inl e \<Rightarrow> Inl e | Inr v \<Rightarrow> f v)"

definition OptimizeModule ::
  "(llvm_module \<Rightarrow> llvm_module) \<Rightarrow> constant_folder \<Rightarrow> nat \<Rightarrow> llvm_module
    \<Rightarrow> (error + llvm_module) option" where
  "OptimizeModule RunO3 folder kMemoryPointerArgNum m =
     (case FindISELs m of
        Inl e \<Rightarrow> Some (Inl e)
      | Inr isels \<Rightarrow>
         (case RemoveISELs isels (RemoveIntrinsics m) of
            None \<Rightarrow> None
          | Some m1 \<Rightarrow>
              Some (bind_err (LowerMemOps folder (RemoveIntrinsics (RunO3 m1)))
                     (\<lambda>m2. bind_err (run_stages (ReplaceBarrier kMemoryPointerArgNum)
                                        barrier_intrinsics m2)
                             RemoveUndefFuncCalls))))"

section \<open>Notions for the statements\<close>

text \<open>
  What a scan of \<open>RemoveISELs\<close> does to a module when it erases nothing: each listed
  global gets internal linkage.
\<close>

definition internalize :: "string list \<Rightarrow> llvm_module \<Rightarrow> llvm_module" where
  "internalize isels m =
     m\<lparr>module_globals :=
          map (\<lambda>g. if gv_name g \<in> set isels then g\<lparr>gv_linkage := InternalLinkage\<rparr> else g)
              (module_globals m)\<rparr>"


text \<open>
  A call to a named function, and the step from the result of such a call to the call's
  \<open>k\<close>-th argument: lowering a barrier or a memory write hands the memory-state
  argument of the call to the users of the call. \<open>rewired R\<close> relates an instruction
  to the same instruction with each operand replaced by an \<open>R\<close>-related one.
\<close>

definition is_call_to :: "string \<Rightarrow> llvm_inst \<Rightarrow> bool" where
  "is_call_to name i = (opcode i = Call \<and> getCalledFunction i = Some name)"

definition passes_through :: "llvm_module \<Rightarrow> string \<Rightarrow> nat \<Rightarrow> llvm_value \<Rightarrow> llvm_value \<Rightarrow> bool" where
  "passes_through m name k v a =
     (\<exists>c\<in>set (all_insts m). is_call_to name c \<and> v = InstV (inst_id c) \<and>
        Suc k < length (inst_operands c) \<and> a = inst_operands c ! k)"

definition rewired :: "(llvm_value \<Rightarrow> llvm_value \<Rightarrow> bool) \<Rightarrow> llvm_inst \<Rightarrow> llvm_inst \<Rightarrow> bool" where
  "rewired R i j =
     (inst_id j = inst_id i \<and> opcode j = opcode i \<and> inst_type j = inst_type i \<and>
      list_all2 R (inst_operands i) (inst_operands j))"

text \<open>
  Where the loop of \<open>ReplaceBarrier\<close> stands after the calls in \<open>D\<close>: the module
  holds the other instructions of the original module \<open>m\<close>, rewired along
  memory-state arguments, and no operand names a call in \<open>D\<close>.
\<close>

definition barrier_inv ::
  "llvm_module \<Rightarrow> string \<Rightarrow> nat \<Rightarrow> nat set \<Rightarrow> llvm_module \<Rightarrow> bool" where
  "barrier_inv m name k D mc =
     (list_all2 (rewired (passes_through m name k)\<^sup>*\<^sup>*)
        (filter (\<lambda>i. inst_id i \<notin> D) (all_insts m)) (all_insts mc) \<and>
      (\<forall>j\<in>set (all_insts mc). \<forall>d\<in>D. InstV d \<notin> set (inst_operands j)))"

text \<open>The test in the loop of \<open>CallersOf\<close>, by itself.\<close>

definition caller_of_user :: "string \<Rightarrow> user \<Rightarrow> nat list" where
  "caller_of_user name u =
     (case u of
        InstructionUser call_inst \<Rightarrow>
          if opcode call_inst = Call \<and> getCalledFunction call_inst = Some name
          then [inst_id call_inst] else []
      | _ \<Rightarrow> [])"

subsection \<open>What the lowering of a memory intrinsic leaves\<close>











text \<open>
  The values for which the builder inserts a cast instruction to the type \<open>t\<close>: those
  that are not constants and have a type other than \<open>t\<close>.
\<close>

definition inserts_cast :: "llvm_module \<Rightarrow> nat \<Rightarrow> llvm_value \<Rightarrow> ir_type \<Rightarrow> bool" where
  "inserts_cast m ip v t =
     (\<not> isa_Constant v \<and> (case getType_value m ip v of None \<Rightarrow> False | Some vt \<Rightarrow> vt \<noteq> t))"




subsection \<open>Example inputs\<close>

definition ex_arch :: Arch where
  "ex_arch = \<lparr>address_size = 64\<rparr>"

definition ex_data_layout :: DataLayout where
  "ex_data_layout = \<lparr>pointer_size_in_bits = 64\<rparr>"

definition ex_address_operand :: "string \<Rightarrow> string \<Rightarrow> 64 word \<Rightarrow> Operand" where
  "ex_address_operand base index d =
     \<lparr>op_type = kTypeAddress, op_size = 64,
      imm = \<lparr>imm_val = 0, is_signed = False\<rparr>,
      addr = \<lparr>base_reg = \<lparr>reg_name = base\<rparr>, index_reg = \<lparr>reg_name = index\<rparr>,
              displacement = d, kind = kMemoryRead\<rparr>\<rparr>"

definition ex_immediate_operand :: "nat \<Rightarrow> 64 word \<Rightarrow> Operand" where
  "ex_immediate_operand w v =
     \<lparr>op_type = kTypeImmediate, op_size = w,
      imm = \<lparr>imm_val = v, is_signed = False\<rparr>,
      addr = \<lparr>base_reg = \<lparr>reg_name = []\<rparr>, index_reg = \<lparr>reg_name = []\<rparr>,
              displacement = 0, kind = kInvalid\<rparr>\<rparr>"

definition ex_arg :: "nat \<Rightarrow> Argument" where
  "ex_arg w = \<lparr>arg_no = 2, arg_type = IntegerTy w\<rparr>"

definition ex_ctx :: "64 word \<Rightarrow> 64 word option \<Rightarrow> TranslationContext" where
  "ex_ctx ea i =
     \<lparr>cfg_inst = Some \<lparr>mem = Some \<lparr>target_ea = ea, mask = 0\<rparr>,
                       imm_xref = map_option (\<lambda>t. \<lparr>target_ea = t, mask = 0\<rparr>) i,
                       disp = None\<rparr>,
      TryGetSegment = (\<lambda>a. False)\<rparr>"

definition ex_inst :: "Operand list \<Rightarrow> Instruction" where
  "ex_inst ops = \<lparr>pc = 0x400100, operands = ops\<rparr>"

definition ex_lifter :: "ir_value option \<Rightarrow> bool \<Rightarrow> ir_value option \<Rightarrow> InstructionLifter" where
  "ex_lifter m used i =
     \<lparr>mem_ref = m, imm_ref = i, disp_ref = None,
      mem_ref_used = used, disp_ref_used = False, imm_ref_used = False, log = []\<rparr>"

definition ex_xref :: "64 word \<Rightarrow> ir_value" where
  "ex_xref ea = XrefInCode (IntegerTy 64) ea"

definition ex_sem :: semantics where
  "ex_sem inst = (kLiftedInstruction, map (\<lambda>op. (ex_arg 64, op)) (operands inst))"


definition ex_memory_type :: ir_type where
  "ex_memory_type = PointerTy (OpaqueTy ''struct.Memory'')"

definition ex_state_type :: ir_type where
  "ex_state_type = PointerTy (OpaqueTy ''struct.State'')"

definition ex_semantics_function :: "string \<Rightarrow> llvm_function" where
  "ex_semantics_function name =
     \<lparr>fn_name = name, return_type = ex_memory_type,
      param_types = [ex_memory_type, ex_state_type, IntegerTy 64],
      fn_linkage = ExternalLinkage, fn_attributes = [], body = None\<rparr>"

definition ex_isel_module :: llvm_module where
  "ex_isel_module =
     \<lparr>module_functions =
        [ex_semantics_function ''__remill_basic_block'',
         ex_semantics_function ''ADD_GPRv_GPRv'',
         \<lparr>fn_name = ''sub_400100'', return_type = ex_memory_type,
          param_types = [ex_memory_type, ex_state_type, IntegerTy 64],
          fn_linkage = ExternalLinkage, fn_attributes = [],
          body = Some [\<lparr>inst_id = 1, opcode = Load, inst_type = IntegerTy 64,
                         inst_operands = [GlobalV ''ISEL_ADD_GPRv_GPRv'']\<rparr>,
                       \<lparr>inst_id = 2, opcode = Load, inst_type = IntegerTy 64,
                         inst_operands = [GlobalV ''ISEL_ADD_GPRv_GPRv'']\<rparr>,
                       \<lparr>inst_id = 3, opcode = Ret, inst_type = VoidTy,
                         inst_operands = [ArgV 0]\<rparr>]\<rparr>],
      module_globals =
        [\<lparr>gv_name = ''ISEL_ADD_GPRv_GPRv'', gv_linkage = ExternalLinkage,
          initializer = Some (ConstantExprV BitCastOp (FuncV ''ADD_GPRv_GPRv'') (PointerTy (IntegerTy 8)))\<rparr>],
      context_constants =
        [ConstantExprV BitCastOp (FuncV ''ADD_GPRv_GPRv'') (PointerTy (IntegerTy 8))]\<rparr>"


text \<open>
  The same lifted function with both loads going through one bit cast of the ISEL: the
  context holds that constant expression once, and it is the only user of the global.
\<close>

definition ex_isel_shared_module :: llvm_module where
  "ex_isel_shared_module =
     \<lparr>module_functions =
        [ex_semantics_function ''__remill_basic_block'',
         ex_semantics_function ''ADD_GPRv_GPRv'',
         \<lparr>fn_name = ''sub_400100'', return_type = ex_memory_type,
          param_types = [ex_memory_type, ex_state_type, IntegerTy 64],
          fn_linkage = ExternalLinkage, fn_attributes = [],
          body = Some [\<lparr>inst_id = 1, opcode = Load, inst_type = IntegerTy 64,
                         inst_operands = [ConstantExprV BitCastOp (GlobalV ''ISEL_ADD_GPRv_GPRv'')
                                            (PointerTy (IntegerTy 64))]\<rparr>,
                       \<lparr>inst_id = 2, opcode = Load, inst_type = IntegerTy 64,
                         inst_operands = [ConstantExprV BitCastOp (GlobalV ''ISEL_ADD_GPRv_GPRv'')
                                            (PointerTy (IntegerTy 64))]\<rparr>,
                       \<lparr>inst_id = 3, opcode = Ret, inst_type = VoidTy,
                         inst_operands = [ArgV 0]\<rparr>]\<rparr>],
      module_globals =
        [\<lparr>gv_name = ''ISEL_ADD_GPRv_GPRv'', gv_linkage = ExternalLinkage,
          initializer = Some (ConstantExprV BitCastOp (FuncV ''ADD_GPRv_GPRv'') (PointerTy (IntegerTy 8)))\<rparr>],
      context_constants =
        [ConstantExprV BitCastOp (FuncV ''ADD_GPRv_GPRv'') (PointerTy (IntegerTy 8)),
         ConstantExprV BitCastOp (GlobalV ''ISEL_ADD_GPRv_GPRv'') (PointerTy (IntegerTy 64))]\<rparr>"

definition ex_barrier_module :: llvm_module where
  "ex_barrier_module =
     \<lparr>module_functions =
        [\<lparr>fn_name = ''__remill_barrier_load_load'', return_type = ex_memory_type,
          param_types = [ex_memory_type],
          fn_linkage = ExternalLinkage, fn_attributes = [], body = None\<rparr>,
         \<lparr>fn_name = ''sub_400100'', return_type = ex_memory_type,
          param_types = [ex_memory_type, ex_state_type, IntegerTy 64],
          fn_linkage = ExternalLinkage, fn_attributes = [],
          body = Some [\<lparr>inst_id = 1, opcode = Call, inst_type = ex_memory_type,
                         inst_operands = [ArgV 0, FuncV ''__remill_barrier_load_load'']\<rparr>,
                       \<lparr>inst_id = 2, opcode = Call, inst_type = ex_memory_type,
                         inst_operands = [InstV 1, FuncV ''__remill_barrier_load_load'']\<rparr>,
                       \<lparr>inst_id = 3, opcode = Ret, inst_type = VoidTy,
                         inst_operands = [InstV 2]\<rparr>]\<rparr>],
      module_globals = [],
      context_constants = []\<rparr>"

definition ex_barrier_lowered :: llvm_module where
  "ex_barrier_lowered =
     \<lparr>module_functions =
        [\<lparr>fn_name = ''__remill_barrier_load_load'', return_type = ex_memory_type,
          param_types = [ex_memory_type],
          fn_linkage = ExternalLinkage, fn_attributes = [], body = None\<rparr>,
         \<lparr>fn_name = ''sub_400100'', return_type = ex_memory_type,
          param_types = [ex_memory_type, ex_state_type, IntegerTy 64],
          fn_linkage = ExternalLinkage, fn_attributes = [],
          body = Some [\<lparr>inst_id = 3, opcode = Ret, inst_type = VoidTy,
                         inst_operands = [ArgV 0]\<rparr>]\<rparr>],
      module_globals = [],
      context_constants = []\<rparr>"

text \<open>
  A lifted function that reads an 80-bit float and writes it twice, the second write
  taking the memory state of the first; what the lowering of the read and of the write
  makes of it; and a module that defines a memory intrinsic.
\<close>

definition ex_mem_module :: llvm_module where
  "ex_mem_module =
     \<lparr>module_functions =
        [\<lparr>fn_name = ''__remill_read_memory_f80'', return_type = DoubleTy,
          param_types = [ex_memory_type, IntegerTy 64],
          fn_linkage = ExternalLinkage, fn_attributes = [], body = None\<rparr>,
         \<lparr>fn_name = ''__remill_write_memory_f80'', return_type = ex_memory_type,
          param_types = [ex_memory_type, IntegerTy 64, DoubleTy],
          fn_linkage = ExternalLinkage, fn_attributes = [], body = None\<rparr>,
         \<lparr>fn_name = ''sub_400100'', return_type = ex_memory_type,
          param_types = [ex_memory_type, ex_state_type, IntegerTy 64],
          fn_linkage = ExternalLinkage, fn_attributes = [],
          body = Some [\<lparr>inst_id = 1, opcode = Call, inst_type = DoubleTy,
                         inst_operands = [ArgV 0, ArgV 2, FuncV ''__remill_read_memory_f80'']\<rparr>,
                       \<lparr>inst_id = 2, opcode = Call, inst_type = ex_memory_type,
                         inst_operands = [ArgV 0, ArgV 2, InstV 1,
                                          FuncV ''__remill_write_memory_f80'']\<rparr>,
                       \<lparr>inst_id = 3, opcode = Call, inst_type = ex_memory_type,
                         inst_operands = [InstV 2, ArgV 2, InstV 1,
                                          FuncV ''__remill_write_memory_f80'']\<rparr>,
                       \<lparr>inst_id = 4, opcode = Ret, inst_type = VoidTy,
                         inst_operands = [InstV 3]\<rparr>]\<rparr>],
      module_globals = [],
      context_constants = []\<rparr>"



definition ex_defined_intrinsic_module :: llvm_module where
  "ex_defined_intrinsic_module =
     \<lparr>module_functions =
        [\<lparr>fn_name = ''__remill_read_memory_8'', return_type = IntegerTy 8,
          param_types = [ex_memory_type, IntegerTy 64],
          fn_linkage = ExternalLinkage, fn_attributes = [],
          body = Some [\<lparr>inst_id = 1, opcode = Ret, inst_type = VoidTy,
                         inst_operands = [UndefV (IntegerTy 8)]\<rparr>]\<rparr>],
      module_globals = [],
      context_constants = []\<rparr>"

text \<open>
  A constant folder that keeps every cast of a constant as a constant expression, and a
  lifted function that reads four bytes at a constant address, with what the lowering
  of the read makes of it: one load through the folded constant, and no cast instruction.
\<close>

definition ex_folder :: constant_folder where
  "ex_folder op v t = ConstantExprV op v t"

definition ex_mem_const_module :: llvm_module where
  "ex_mem_const_module =
     \<lparr>module_functions =
        [\<lparr>fn_name = ''__remill_read_memory_32'', return_type = IntegerTy 32,
          param_types = [ex_memory_type, IntegerTy 64],
          fn_linkage = ExternalLinkage, fn_attributes = [], body = None\<rparr>,
         \<lparr>fn_name = ''sub_400200'', return_type = ex_memory_type,
          param_types = [ex_memory_type, ex_state_type, IntegerTy 64],
          fn_linkage = ExternalLinkage, fn_attributes = [],
          body = Some [\<lparr>inst_id = 1, opcode = Call, inst_type = IntegerTy 32,
                         inst_operands = [ArgV 0, ConstantIntV (IntegerTy 64) 0x601040,
                                          FuncV ''__remill_read_memory_32'']\<rparr>,
                       \<lparr>inst_id = 2, opcode = OtherOp ''add'', inst_type = IntegerTy 32,
                         inst_operands = [InstV 1, InstV 1]\<rparr>,
                       \<lparr>inst_id = 3, opcode = Ret, inst_type = VoidTy,
                         inst_operands = [ArgV 0]\<rparr>]\<rparr>],
      module_globals = [],
      context_constants = []\<rparr>"

definition ex_mem_const_lowered :: llvm_module where
  "ex_mem_const_lowered =
     \<lparr>module_functions =
        [\<lparr>fn_name = ''sub_400200'', return_type = ex_memory_type,
          param_types = [ex_memory_type, ex_state_type, IntegerTy 64],
          fn_linkage = ExternalLinkage, fn_attributes = [],
          body = Some [\<lparr>inst_id = 4, opcode = Load, inst_type = IntegerTy 32,
                         inst_operands =
                           [ConstantExprV IntToPtrOp (ConstantIntV (IntegerTy 64) 0x601040)
                              (PointerTy (IntegerTy 32))]\<rparr>,
                       \<lparr>inst_id = 2, opcode = OtherOp ''add'', inst_type = IntegerTy 32,
                         inst_operands = [InstV 4, InstV 4]\<rparr>,
                       \<lparr>inst_id = 3, opcode = Ret, inst_type = VoidTy,
                         inst_operands = [ArgV 0]\<rparr>]\<rparr>],
      module_globals = [],
      context_constants =
        [ConstantExprV IntToPtrOp (ConstantIntV (IntegerTy 64) 0x601040)
           (PointerTy (IntegerTy 32))]\<rparr>"

text \<open>
  Two lifted functions that call an undefined-value intrinsic. In the first the store
  takes the undefined value and a pointer cast from it; in the second one store takes a
  comparison of a truncation of the undefined value, the other a sum built from it.
\<close>

definition ex_undef_twice_module :: llvm_module where
  "ex_undef_twice_module =
     \<lparr>module_functions =
        [\<lparr>fn_name = ''__remill_undefined_64'', return_type = IntegerTy 64,
          param_types = [],
          fn_linkage = ExternalLinkage, fn_attributes = [], body = None\<rparr>,
         \<lparr>fn_name = ''sub_400100'', return_type = ex_memory_type,
          param_types = [ex_memory_type, ex_state_type, IntegerTy 64],
          fn_linkage = ExternalLinkage, fn_attributes = [],
          body = Some [\<lparr>inst_id = 1, opcode = Call, inst_type = IntegerTy 64,
                         inst_operands = [FuncV ''__remill_undefined_64'']\<rparr>,
                       \<lparr>inst_id = 2, opcode = Cast IntToPtrOp, inst_type = PointerTy (IntegerTy 64),
                         inst_operands = [InstV 1]\<rparr>,
                       \<lparr>inst_id = 3, opcode = Store, inst_type = VoidTy,
                         inst_operands = [InstV 1, InstV 2]\<rparr>,
                       \<lparr>inst_id = 4, opcode = Ret, inst_type = VoidTy,
                         inst_operands = [ArgV 0]\<rparr>]\<rparr>],
      module_globals = [],
      context_constants = []\<rparr>"

definition ex_undef_module :: llvm_module where
  "ex_undef_module =
     \<lparr>module_functions =
        [\<lparr>fn_name = ''__remill_undefined_64'', return_type = IntegerTy 64,
          param_types = [],
          fn_linkage = ExternalLinkage, fn_attributes = [], body = None\<rparr>,
         \<lparr>fn_name = ''sub_400100'', return_type = ex_memory_type,
          param_types = [ex_memory_type, ex_state_type, IntegerTy 64],
          fn_linkage = ExternalLinkage, fn_attributes = [],
          body = Some [\<lparr>inst_id = 1, opcode = Call, inst_type = IntegerTy 64,
                         inst_operands = [FuncV ''__remill_undefined_64'']\<rparr>,
                       \<lparr>inst_id = 2, opcode = Cast TruncOp, inst_type = IntegerTy 32,
                         inst_operands = [InstV 1]\<rparr>,
                       \<lparr>inst_id = 3, opcode = Cmp, inst_type = IntegerTy 1,
                         inst_operands = [InstV 2, ConstantIntV (IntegerTy 32) 0]\<rparr>,
                       \<lparr>inst_id = 4, opcode = Store, inst_type = VoidTy,
                         inst_operands = [InstV 3, ArgV 1]\<rparr>,
                       \<lparr>inst_id = 5, opcode = OtherOp ''add'', inst_type = IntegerTy 64,
                         inst_operands = [InstV 1, ConstantIntV (IntegerTy 64) 1]\<rparr>,
                       \<lparr>inst_id = 6, opcode = Store, inst_type = VoidTy,
                         inst_operands = [InstV 5, ArgV 1]\<rparr>,
                       \<lparr>inst_id = 7, opcode = Ret, inst_type = VoidTy,
                         inst_operands = [ArgV 0]\<rparr>]\<rparr>],
      module_globals = [],
      context_constants = []\<rparr>"

definition ex_undef_lowered :: llvm_module where
  "ex_undef_lowered =
     \<lparr>module_functions =
        [\<lparr>fn_name = ''sub_400100'', return_type = ex_memory_type,
          param_types = [ex_memory_type, ex_state_type, IntegerTy 64],
          fn_linkage = ExternalLinkage, fn_attributes = [],
          body = Some [\<lparr>inst_id = 2, opcode = Cast TruncOp, inst_type = IntegerTy 32,
                         inst_operands = [UndefV (IntegerTy 64)]\<rparr>,
                       \<lparr>inst_id = 3, opcode = Cmp, inst_type = IntegerTy 1,
                         inst_operands = [UndefV (IntegerTy 32), ConstantIntV (IntegerTy 32) 0]\<rparr>,
                       \<lparr>inst_id = 5, opcode = OtherOp ''add'', inst_type = IntegerTy 64,
                         inst_operands = [UndefV (IntegerTy 64), ConstantIntV (IntegerTy 64) 1]\<rparr>,
                       \<lparr>inst_id = 6, opcode = Store, inst_type = VoidTy,
                         inst_operands = [InstV 5, ArgV 1]\<rparr>,
                       \<lparr>inst_id = 7, opcode = Ret, inst_type = VoidTy,
                         inst_operands = [ArgV 0]\<rparr>]\<rparr>],
      module_globals = [],
      context_constants = []\<rparr>"

section \<open>Properties of the instruction lifter\<close>

subsection \<open>Address operands\<close>

text \<open>
  C1 (as amended). For a data operand (not a control-flow target) with no index register
  and either no base register or the base register \<open>PC\<close>, the lifter returns the
  memory reference whenever one is present and marks it used; otherwise the displacement
  reference whenever one is present and marks it used; otherwise the result of the
  generic path. Neither test looks at the used flag.
\<close>

theorem C1_address_operand_substitution:
  assumes "\<not> IsControlFlowTarget (addr op)"
    and "reg_name (index_reg (addr op)) = []"
    and "reg_name (base_reg (addr op)) = [] \<or> reg_name (base_reg (addr op)) = ''PC''"
  shows "LiftAddressOperand ctx inst arg op st =
     (case mem_ref st of
        Some r \<Rightarrow> Inr (r, op, st\<lparr>mem_ref_used := True\<rparr>)
      | None \<Rightarrow>
         (case disp_ref st of
            Some d \<Rightarrow> Inr (d, op, st\<lparr>disp_ref_used := True\<rparr>)
          | None \<Rightarrow> Inr (RemillAddressOperand arg op, op, st)))"
  using assms by (auto simp: LiftAddressOperand_def Let_def split: option.splits)

theorem C1_address_operand_substitution_witness:
  "LiftAddressOperand (ex_ctx 0x601040 None) (ex_inst []) (ex_arg 64)
        (ex_address_operand ''PC'' [] 0x20) (ex_lifter (Some (ex_xref 0x601040)) False None)
      = Inr (ex_xref 0x601040, ex_address_operand ''PC'' [] 0x20,
             ex_lifter (Some (ex_xref 0x601040)) True None)"
  using C1_address_operand_substitution [of "ex_address_operand ''PC'' [] 0x20"
      "ex_ctx 0x601040 None" "ex_inst []" "ex_arg 64"
      "ex_lifter (Some (ex_xref 0x601040)) False None"]
  by (simp add: IsControlFlowTarget_def ex_lifter_def ex_address_operand_def)

text \<open>
  C1 as stated fails where the memory reference is present and already marked used, and
  there is no displacement reference: the claim has the lifter fall through to the
  generic path, the code returns the memory reference again. The state is the one the
  second memory operand of an instruction is lifted in (see \<open>second_operand_state\<close>
  below).
\<close>

theorem C1_used_reference_counterexample:
  "mem_ref (ex_lifter (Some (ex_xref 0x601040)) True None) = Some (ex_xref 0x601040)
   \<and> mem_ref_used (ex_lifter (Some (ex_xref 0x601040)) True None)
   \<and> disp_ref (ex_lifter (Some (ex_xref 0x601040)) True None) = None
   \<and> \<not> IsControlFlowTarget (addr (ex_address_operand [] [] 0x601040))
   \<and> reg_name (base_reg (addr (ex_address_operand [] [] 0x601040))) = []
   \<and> reg_name (index_reg (addr (ex_address_operand [] [] 0x601040))) = []
   \<and> LiftAddressOperand (ex_ctx 0x601040 None) (ex_inst []) (ex_arg 64)
        (ex_address_operand [] [] 0x601040) (ex_lifter (Some (ex_xref 0x601040)) True None)
      = Inr (ex_xref 0x601040, ex_address_operand [] [] 0x601040,
             ex_lifter (Some (ex_xref 0x601040)) True None)
   \<and> LiftAddressOperand (ex_ctx 0x601040 None) (ex_inst []) (ex_arg 64)
        (ex_address_operand [] [] 0x601040) (ex_lifter (Some (ex_xref 0x601040)) True None)
      \<noteq> Inr (RemillAddressOperand (ex_arg 64) (ex_address_operand [] [] 0x601040),
              ex_address_operand [] [] 0x601040,
              ex_lifter (Some (ex_xref 0x601040)) True None)"
  by (simp add: LiftAddressOperand_def IsControlFlowTarget_def ex_lifter_def
      ex_address_operand_def ex_xref_def Let_def)

text \<open>
  An instruction with two operands at the same absolute address (a read-modify-write):
  after the first operand the lifter is in the state of the counterexample, and both
  operands are lifted to the memory reference.
\<close>

lemma second_operand_state:
  "LiftOperands (ex_ctx 0x601040 None) ex_arch ex_data_layout (ex_inst [])
      [(ex_arg 64, ex_address_operand [] [] 0x601040)]
      (fetch_refs (ex_ctx 0x601040 None) ex_arch (ex_lifter None False None))
    = Inr ([ex_xref 0x601040], ex_lifter (Some (ex_xref 0x601040)) True None)"
  and both_operands_lifted_to_reference:
  "LiftOperands (ex_ctx 0x601040 None) ex_arch ex_data_layout (ex_inst [])
      [(ex_arg 64, ex_address_operand [] [] 0x601040),
       (ex_arg 64, ex_address_operand [] [] 0x601040)]
      (fetch_refs (ex_ctx 0x601040 None) ex_arch (ex_lifter None False None))
    = Inr ([ex_xref 0x601040, ex_xref 0x601040], ex_lifter (Some (ex_xref 0x601040)) True None)"
  by (simp_all add: LiftOperand_def LiftAddressOperand_def IsControlFlowTarget_def
      fetch_refs_def GetAddress_def LiftXrefInCode_def ex_ctx_def ex_arch_def
      ex_lifter_def ex_address_operand_def ex_xref_def Let_def)

text \<open>
  C3. A data operand that reaches the last branch of the address-operand lifter (it has
  a base or an index register and is not \<open>PC\<close>- or \<open>NEXT_PC\<close>-relative without
  index), with no displacement reference, and with a memory reference whose target
  address equals the displacement field (compared as 64-bit patterns, the
  \<^verbatim>\<open>static_cast<uint64_t>\<close> of the code): the lifter logs the misclassification,
  marks the memory reference used, clears the displacement, lifts the operand with the
  cleared displacement through the generic path and returns the sum of that address
  and the memory reference.
\<close>

theorem C3_misclassified_reference:
  assumes "\<not> IsControlFlowTarget (addr op)"
    and "\<not> (reg_name (base_reg (addr op)) = [] \<and> reg_name (index_reg (addr op)) = [])"
    and "\<not> (reg_name (base_reg (addr op)) = ''PC'' \<and> reg_name (index_reg (addr op)) = [])"
    and "\<not> (reg_name (base_reg (addr op)) = ''NEXT_PC'' \<and> reg_name (index_reg (addr op)) = [])"
    and "disp_ref st = None"
    and "mem_ref st = Some r"
    and "cfg_inst ctx = Some ci" and "mem ci = Some x"
    and "displacement (addr op) = target_ea x"
  shows "LiftAddressOperand ctx inst arg op st =
     Inr (CreateAdd (RemillAddressOperand arg (op\<lparr>addr := (addr op)\<lparr>displacement := 0\<rparr>\<rparr>)) r,
          op\<lparr>addr := (addr op)\<lparr>displacement := 0\<rparr>\<rparr>,
          st\<lparr>log := log st @ [IncorrectlyDecodedMemoryOperand op (pc inst)],
             mem_ref_used := True\<rparr>)"
  using assms by (auto simp: LiftAddressOperand_def Let_def)

theorem C3_misclassified_reference_witness:
  "LiftAddressOperand (ex_ctx 0x4010 None) (ex_inst []) (ex_arg 64)
        (ex_address_operand ''RDI'' [] 0x4010) (ex_lifter (Some (ex_xref 0x4010)) False None)
      = Inr (CreateAdd (RemillAddressOperand (ex_arg 64) (ex_address_operand ''RDI'' [] 0))
                       (ex_xref 0x4010),
             ex_address_operand ''RDI'' [] 0,
             (ex_lifter (Some (ex_xref 0x4010)) True None)
               \<lparr>log := [IncorrectlyDecodedMemoryOperand (ex_address_operand ''RDI'' [] 0x4010)
                          0x400100]\<rparr>)"
  using C3_misclassified_reference [of "ex_address_operand ''RDI'' [] 0x4010"
      "ex_lifter (Some (ex_xref 0x4010)) False None" "ex_xref 0x4010" "ex_ctx 0x4010 None"
      "\<lparr>mem = Some \<lparr>target_ea = 0x4010, mask = 0\<rparr>, imm_xref = None, disp = None\<rparr>"
      "\<lparr>target_ea = 0x4010, mask = 0\<rparr>" "ex_inst []" "ex_arg 64"]
  by (simp add: IsControlFlowTarget_def ex_lifter_def ex_address_operand_def ex_ctx_def
      ex_inst_def)

text \<open>
  C10. Merging the \<open>PC\<close> branch and the \<open>NEXT_PC\<close> branch of the address-operand
  lifter into one branch changes the result for no operand and no lifter state.
\<close>

lemma if_merge: "(if P then x else if Q then x else y) = (if P \<or> Q then x else y)"
  by simp

theorem C10_branches_merge:
  "LiftAddressOperand ctx inst arg op st = LiftAddressOperand_merged ctx inst arg op st"
proof -
  let ?b = "reg_name (base_reg (addr op))"
  let ?i = "reg_name (index_reg (addr op))"
  have m: "(?i = [] \<and> (?b = [] \<or> ?b = ''PC'' \<or> ?b = ''NEXT_PC'')) =
           (((?b = [] \<and> ?i = []) \<or> (?b = ''PC'' \<and> ?i = [])) \<or>
            ((?b = [] \<and> ?i = []) \<or> (?b = ''NEXT_PC'' \<and> ?i = [])))"
    by blast
  show ?thesis
    unfolding LiftAddressOperand_def LiftAddressOperand_merged_def Let_def m if_merge
    by (rule refl)
qed

theorem C10_branches_merge_witness:
  "LiftAddressOperand_merged (ex_ctx 0x601040 None) (ex_inst []) (ex_arg 64)
        (ex_address_operand ''NEXT_PC'' [] 0x20) (ex_lifter (Some (ex_xref 0x601040)) False None)
      = Inr (ex_xref 0x601040, ex_address_operand ''NEXT_PC'' [] 0x20,
             ex_lifter (Some (ex_xref 0x601040)) True None)"
  unfolding C10_branches_merge [symmetric]
  by (simp add: LiftAddressOperand_def IsControlFlowTarget_def ex_lifter_def
      ex_address_operand_def Let_def)

subsection \<open>Immediate operands\<close>

text \<open>
  What \<open>LiftIntoBlock\<close> fetches is an integer of the address width, so an immediate
  reference that has not been used yet has that type.
\<close>

lemma fetch_refs_imm_type:
  "imm_ref (fetch_refs ctx arch st) = Some r \<Longrightarrow> getType r = IntegerTy (address_size arch)"
  by (auto simp: fetch_refs_def GetAddress_def LiftXrefInCode_def
      split: option.splits if_splits)

text \<open>
  C7 as stated fails: the width of the operand (\<^verbatim>\<open>op.size\<close>) decides nothing when a
  reference is substituted. With a 64-bit address width and a 64-bit argument, an operand
  of 32 bits gets the reference untruncated and an operand of 128 bits is lifted without
  a failed check; with a 32-bit argument an operand of 64 bits gets the reference
  truncated.
\<close>

theorem C7_operand_width_counterexample:
  "op_size (ex_immediate_operand 32 0x4010) < address_size ex_arch
   \<and> LiftImmediateOperand (ex_ctx 0 (Some 0x4010)) ex_arch ex_data_layout (ex_inst []) (ex_arg 64)
       (ex_immediate_operand 32 0x4010) (ex_lifter None False (Some (ex_xref 0x4010)))
     = Inr (ex_xref 0x4010, (ex_lifter None False (Some (ex_xref 0x4010)))\<lparr>imm_ref_used := True\<rparr>)
   \<and> address_size ex_arch < op_size (ex_immediate_operand 128 0x4010)
   \<and> LiftImmediateOperand (ex_ctx 0 (Some 0x4010)) ex_arch ex_data_layout (ex_inst []) (ex_arg 64)
       (ex_immediate_operand 128 0x4010) (ex_lifter None False (Some (ex_xref 0x4010)))
     = Inr (ex_xref 0x4010, (ex_lifter None False (Some (ex_xref 0x4010)))\<lparr>imm_ref_used := True\<rparr>)
   \<and> op_size (ex_immediate_operand 64 0x4010) = address_size ex_arch
   \<and> LiftImmediateOperand (ex_ctx 0 (Some 0x4010)) ex_arch ex_data_layout (ex_inst []) (ex_arg 32)
       (ex_immediate_operand 64 0x4010) (ex_lifter None False (Some (ex_xref 0x4010)))
     = Inr (CreateTrunc (ex_xref 0x4010) (IntegerTy 32),
            (ex_lifter None False (Some (CreateTrunc (ex_xref 0x4010) (IntegerTy 32))))
              \<lparr>imm_ref_used := True\<rparr>)"
  by (simp add: LiftImmediateOperand_def Let_def ex_lifter_def ex_xref_def ex_arch_def ex_arg_def
      ex_immediate_operand_def)

text \<open>
  C7 (as amended). The width that decides is the one the code measures: the size in bits
  of the type of the argument the operand is lifted for
  (\<^verbatim>\<open>data_layout.getTypeSizeInBits(arg_type)\<close>), whatever the width of the operand.
  When an unused immediate reference of the address-width integer type is substituted:
  an argument width above the address size is the failed \<^verbatim>\<open>CHECK\<close>; a width strictly
  below it gives the reference truncated to the argument's type; a width equal to it
  gives the reference itself.
\<close>

theorem C7_immediate_truncation:
  assumes "imm_ref st = Some r" and "\<not> imm_ref_used st"
    and "getType r = IntegerTy (address_size arch)"
  shows "LiftImmediateOperand ctx arch data_layout inst arg op st =
     (if address_size arch < getTypeSizeInBits data_layout (arg_type arg)
      then Inl (CheckFailed ''Immediate operand is wider than the architecture pointer size'')
      else if getTypeSizeInBits data_layout (arg_type arg) < address_size arch
      then Inr (CreateTrunc r (arg_type arg),
                st\<lparr>imm_ref_used := True, imm_ref := Some (CreateTrunc r (arg_type arg))\<rparr>)
      else Inr (r, st\<lparr>imm_ref_used := True\<rparr>))"
  using assms by (auto simp: LiftImmediateOperand_def Let_def)

theorem C7_immediate_truncation_witness:
  "LiftImmediateOperand (ex_ctx 0 (Some 0x4010)) ex_arch ex_data_layout (ex_inst []) (ex_arg 32)
       (ex_immediate_operand 32 0x4010) (ex_lifter None False (Some (ex_xref 0x4010)))
     = Inr (CreateTrunc (ex_xref 0x4010) (IntegerTy 32),
            (ex_lifter None False (Some (CreateTrunc (ex_xref 0x4010) (IntegerTy 32))))
              \<lparr>imm_ref_used := True\<rparr>)
   \<and> LiftImmediateOperand (ex_ctx 0 (Some 0x4010)) ex_arch ex_data_layout (ex_inst []) (ex_arg 64)
       (ex_immediate_operand 64 0x4010) (ex_lifter None False (Some (ex_xref 0x4010)))
     = Inr (ex_xref 0x4010, (ex_lifter None False (Some (ex_xref 0x4010)))\<lparr>imm_ref_used := True\<rparr>)
   \<and> LiftImmediateOperand (ex_ctx 0 (Some 0x4010)) ex_arch ex_data_layout (ex_inst []) (ex_arg 128)
       (ex_immediate_operand 128 0x4010) (ex_lifter None False (Some (ex_xref 0x4010)))
     = Inl (CheckFailed ''Immediate operand is wider than the architecture pointer size'')"
  using
    C7_immediate_truncation [of "ex_lifter None False (Some (ex_xref 0x4010))" "ex_xref 0x4010"
      ex_arch "ex_ctx 0 (Some 0x4010)" ex_data_layout "ex_inst []" "ex_arg 32"
      "ex_immediate_operand 32 0x4010"]
    C7_immediate_truncation [of "ex_lifter None False (Some (ex_xref 0x4010))" "ex_xref 0x4010"
      ex_arch "ex_ctx 0 (Some 0x4010)" ex_data_layout "ex_inst []" "ex_arg 64"
      "ex_immediate_operand 64 0x4010"]
    C7_immediate_truncation [of "ex_lifter None False (Some (ex_xref 0x4010))" "ex_xref 0x4010"
      ex_arch "ex_ctx 0 (Some 0x4010)" ex_data_layout "ex_inst []" "ex_arg 128"
      "ex_immediate_operand 128 0x4010"]
  by (simp add: ex_lifter_def ex_xref_def ex_arch_def ex_arg_def)

subsection \<open>The closing checks of \<open>LiftIntoBlock\<close>\<close>

lemma fetch_refs_backed: "refs_backed ctx (fetch_refs ctx arch st)"
  by (auto simp: refs_backed_def fetch_refs_def GetAddress_def split: option.splits)

lemma LiftImmediateOperand_backed:
  assumes "refs_backed ctx st"
    and "LiftImmediateOperand ctx arch data_layout inst arg op st = Inr (v, st1)"
  shows "refs_backed ctx st1"
  using assms
  by (auto simp: LiftImmediateOperand_def refs_backed_def Let_def
      split: option.splits bool.splits if_splits)

lemma LiftAddressOperand_backed:
  assumes "refs_backed ctx st"
    and "LiftAddressOperand ctx inst arg op st = Inr (v, op1, st1)"
  shows "refs_backed ctx st1"
proof -
  have "mem_ref st1 = mem_ref st \<and> imm_ref st1 = imm_ref st \<and> disp_ref st1 = disp_ref st"
    using assms(2)
    unfolding LiftAddressOperand_def Let_def
    by (auto split: option.splits if_splits)
  with assms(1) show ?thesis
    by (simp add: refs_backed_def)
qed

lemma LiftOperand_backed:
  assumes "refs_backed ctx st"
    and "LiftOperand ctx arch data_layout inst arg op st = Inr (v, st1)"
  shows "refs_backed ctx st1"
proof (cases "op_type op")
  case kTypeImmediate
  with assms show ?thesis
    by (auto simp: LiftOperand_def dest: LiftImmediateOperand_backed)
next
  case kTypeAddress
  with assms show ?thesis
    by (auto simp: LiftOperand_def split: sum.splits dest: LiftAddressOperand_backed)
qed (use assms in \<open>auto simp: LiftOperand_def\<close>)

lemma LiftOperands_backed:
  assumes "refs_backed ctx st"
    and "LiftOperands ctx arch data_layout inst ops st = Inr (vs, st1)"
  shows "refs_backed ctx st1"
  using assms
proof (induction ops arbitrary: st vs)
  case Nil
  then show ?case by simp
next
  case (Cons a ops)
  obtain arg op where a: "a = (arg, op)" by (cases a)
  from Cons.prems(2) obtain v st2 vs2 where
    one: "LiftOperand ctx arch data_layout inst arg op st = Inr (v, st2)" and
    more: "LiftOperands ctx arch data_layout inst ops st2 = Inr (vs2, st1)"
    by (auto simp: a split: sum.splits)
  from Cons.prems(1) one have "refs_backed ctx st2"
    by (rule LiftOperand_backed)
  then show ?case using more by (rule Cons.IH)
qed

lemma report_unused_backed:
  assumes "r \<noteq> None \<longrightarrow> (\<exists>ci x. cfg_inst ctx = Some ci \<and> sel ci = Some x)"
  shows "\<exists>d. report_unused ctx r used sel mk st = Inr (st\<lparr>log := log st @ d\<rparr>) \<and>
     (if r \<noteq> None \<and> \<not> used
      then (\<exists>ci x. cfg_inst ctx = Some ci \<and> sel ci = Some x \<and> d = [mk (target_ea x)])
      else d = [])"
  using assms by (auto simp: report_unused_def)

text \<open>
  C9. Whatever status the architecture semantics reports, \<open>LiftIntoBlock\<close> returns
  that status, with the lifter state the delegation left and the log extended by the
  diagnostics \<open>dm\<close>, \<open>di\<close>, \<open>dd\<close>: after a successful lift, one diagnostic for
  each of the memory, immediate and displacement references that is present with its
  used flag still false, naming the target address of its cross-reference; nothing
  otherwise. The closing checks never end in an error.
\<close>

theorem C9_unused_diagnostics:
  assumes "remill_LiftIntoBlock sem ctx arch data_layout inst (fetch_refs ctx arch st) = Inr (status, st1)"
  shows "\<exists>dm di dd.
     LiftIntoBlock sem ctx arch data_layout inst st = Inr (status, st1\<lparr>log := log st1 @ dm @ di @ dd\<rparr>) \<and>
     (if status = kLiftedInstruction \<and> mem_ref st1 \<noteq> None \<and> \<not> mem_ref_used st1
      then (\<exists>ci x. cfg_inst ctx = Some ci \<and> mem ci = Some x \<and>
                 dm = [UnusedMemoryReference (target_ea x) inst])
      else dm = []) \<and>
     (if status = kLiftedInstruction \<and> imm_ref st1 \<noteq> None \<and> \<not> imm_ref_used st1
      then (\<exists>ci x. cfg_inst ctx = Some ci \<and> imm_xref ci = Some x \<and>
                 di = [UnusedImmediateReference (target_ea x) inst])
      else di = []) \<and>
     (if status = kLiftedInstruction \<and> disp_ref st1 \<noteq> None \<and> \<not> disp_ref_used st1
      then (\<exists>ci x. cfg_inst ctx = Some ci \<and> disp ci = Some x \<and>
                 dd = [UnusedDisplacementReference (target_ea x) inst])
      else dd = [])"
proof -
  from assms obtain vs where
    ops: "LiftOperands ctx arch data_layout inst (snd (sem inst)) (fetch_refs ctx arch st) = Inr (vs, st1)"
    by (auto simp: remill_LiftIntoBlock_def split: sum.splits)
  have backed: "refs_backed ctx st1"
    using fetch_refs_backed ops by (rule LiftOperands_backed)
  show ?thesis
  proof (cases "status = kLiftedInstruction")
    case False
    then have "LiftIntoBlock sem ctx arch data_layout inst st = Inr (status, st1\<lparr>log := log st1 @ [] @ [] @ []\<rparr>)"
      using assms by (auto simp: LiftIntoBlock_def)
    with False show ?thesis
      by (intro exI [where x = "[]"]) simp
  next
    case True
    let ?mkm = "\<lambda>ea. UnusedMemoryReference ea inst"
    let ?mki = "\<lambda>ea. UnusedImmediateReference ea inst"
    let ?mkd = "\<lambda>ea. UnusedDisplacementReference ea inst"
    from backed obtain dm where
      m: "report_unused ctx (mem_ref st1) (mem_ref_used st1) mem ?mkm st1 = Inr (st1\<lparr>log := log st1 @ dm\<rparr>)" and
      m': "if mem_ref st1 \<noteq> None \<and> \<not> mem_ref_used st1
           then (\<exists>ci x. cfg_inst ctx = Some ci \<and> mem ci = Some x \<and> dm = [?mkm (target_ea x)])
           else dm = []"
      using report_unused_backed [of "mem_ref st1" ctx mem "mem_ref_used st1" ?mkm st1]
      unfolding refs_backed_def by blast
    let ?s2 = "st1\<lparr>log := log st1 @ dm\<rparr>"
    from backed obtain di where
      i: "report_unused ctx (imm_ref ?s2) (imm_ref_used ?s2) imm_xref ?mki ?s2 = Inr (?s2\<lparr>log := log ?s2 @ di\<rparr>)" and
      i': "if imm_ref st1 \<noteq> None \<and> \<not> imm_ref_used st1
           then (\<exists>ci x. cfg_inst ctx = Some ci \<and> imm_xref ci = Some x \<and> di = [?mki (target_ea x)])
           else di = []"
      using report_unused_backed [of "imm_ref ?s2" ctx imm_xref "imm_ref_used ?s2" ?mki ?s2]
      unfolding refs_backed_def by auto
    let ?s3 = "?s2\<lparr>log := log ?s2 @ di\<rparr>"
    from backed obtain dd where
      d: "report_unused ctx (disp_ref ?s3) (disp_ref_used ?s3) disp ?mkd ?s3 = Inr (?s3\<lparr>log := log ?s3 @ dd\<rparr>)" and
      d': "if disp_ref st1 \<noteq> None \<and> \<not> disp_ref_used st1
           then (\<exists>ci x. cfg_inst ctx = Some ci \<and> disp ci = Some x \<and> dd = [?mkd (target_ea x)])
           else dd = []"
      using report_unused_backed [of "disp_ref ?s3" ctx disp "disp_ref_used ?s3" ?mkd ?s3]
      unfolding refs_backed_def by auto
    have res: "LiftIntoBlock sem ctx arch data_layout inst st = Inr (status, st1\<lparr>log := log st1 @ dm @ di @ dd\<rparr>)"
      using assms True m i d by (simp add: LiftIntoBlock_def)
    show ?thesis
    proof (intro exI conjI)
      show "LiftIntoBlock sem ctx arch data_layout inst st = Inr (status, st1\<lparr>log := log st1 @ dm @ di @ dd\<rparr>)"
        by (fact res)
    qed (use True m' i' d' in simp_all)
  qed
qed


theorem C9_unused_diagnostics_witness:
  "remill_LiftIntoBlock ex_sem (ex_ctx 0x601040 (Some 0x4010)) ex_arch ex_data_layout
       (ex_inst [ex_address_operand [] [] 0x601040])
       (fetch_refs (ex_ctx 0x601040 (Some 0x4010)) ex_arch (ex_lifter None False None))
     = Inr (kLiftedInstruction, ex_lifter (Some (ex_xref 0x601040)) True (Some (ex_xref 0x4010)))
   \<and> LiftIntoBlock ex_sem (ex_ctx 0x601040 (Some 0x4010)) ex_arch ex_data_layout
       (ex_inst [ex_address_operand [] [] 0x601040]) (ex_lifter None False None)
     = Inr (kLiftedInstruction,
            (ex_lifter (Some (ex_xref 0x601040)) True (Some (ex_xref 0x4010)))
              \<lparr>log := [UnusedImmediateReference 0x4010
                         (ex_inst [ex_address_operand [] [] 0x601040])]\<rparr>)"
proof -
  have h: "remill_LiftIntoBlock ex_sem (ex_ctx 0x601040 (Some 0x4010)) ex_arch ex_data_layout
       (ex_inst [ex_address_operand [] [] 0x601040])
       (fetch_refs (ex_ctx 0x601040 (Some 0x4010)) ex_arch (ex_lifter None False None))
     = Inr (kLiftedInstruction, ex_lifter (Some (ex_xref 0x601040)) True (Some (ex_xref 0x4010)))"
    by (simp add: remill_LiftIntoBlock_def ex_sem_def ex_inst_def LiftOperand_def
        LiftAddressOperand_def IsControlFlowTarget_def fetch_refs_def GetAddress_def
        LiftXrefInCode_def ex_ctx_def ex_arch_def ex_lifter_def ex_address_operand_def
        ex_xref_def Let_def)
  show ?thesis
    using h C9_unused_diagnostics [OF h]
    by (auto simp: ex_lifter_def ex_ctx_def)
qed

section \<open>Properties of the module optimizer\<close>

subsection \<open>Instructions, identities and callers\<close>

lemma all_insts_map_bodies_filter:
  "all_insts (map_bodies (filter p) m) = filter p (all_insts m)"
proof -
  have "body_insts (f\<lparr>body := map_option (filter p) (body f)\<rparr>) = filter p (body_insts f)" for f
    by (simp add: body_insts_def split: option.splits)
  then show ?thesis
    by (simp add: all_insts_def map_bodies_def filter_concat comp_def)
qed

lemma all_insts_erase:
  "eraseFromParent n m = Inr m1 \<Longrightarrow> all_insts m1 = filter (\<lambda>i. inst_id i \<noteq> n) (all_insts m)"
  by (auto simp: eraseFromParent_def all_insts_map_bodies_filter split: option.splits)

lemma find_inst_SomeD:
  "find_inst m n = Some i \<Longrightarrow> i \<in> set (all_insts m) \<and> inst_id i = n"
  by (auto simp: find_inst_def find_Some_iff)

lemma find_inst_None_iff:
  "find_inst m n = None \<longleftrightarrow> n \<notin> inst_id ` set (all_insts m)"
  by (auto simp: find_inst_def find_None_iff)

lemma same_id_same_inst:
  assumes "distinct (map inst_id xs)" and "i \<in> set xs" and "j \<in> set xs"
    and "inst_id i = inst_id j"
  shows "i = j"
  using assms by (meson distinct_map inj_onD)

lemma getArgOperandD:
  assumes "getArgOperand m c n = Inr a"
  shows "\<exists>i\<in>set (all_insts m). inst_id i = c \<and> Suc n < length (inst_operands i) \<and>
           a = inst_operands i ! n"
  using assms
  by (auto simp: getArgOperand_def split: option.splits if_splits dest: find_inst_SomeD)

lemma callee_is_operand:
  assumes "is_call_to name i"
  shows "inst_operands i \<noteq> [] \<and> last (inst_operands i) = FuncV name"
  using assms
  by (auto simp: is_call_to_def getCalledFunction_def split: list.splits llvm_value.splits)

lemma CallersOf_set:
  "set (CallersOf m name) = inst_id ` {i \<in> set (all_insts m). is_call_to name i}"
proof (intro set_eqI iffI)
  fix n assume "n \<in> set (CallersOf m name)"
  then obtain u where u: "u \<in> set (users m (FuncV name))"
    and n: "n \<in> set (case u of InstructionUser c \<Rightarrow>
                 if opcode c = Call \<and> getCalledFunction c = Some name then [inst_id c] else []
               | _ \<Rightarrow> [])"
    by (auto simp: CallersOf_def)
  from n obtain c where c: "u = InstructionUser c" "is_call_to name c" "n = inst_id c"
    by (cases u rule: user.exhaust) (auto simp: is_call_to_def split: if_splits)
  have g: "InstructionUser c \<notin> set (global_users (FuncV name) g)" for g
    by (auto simp: global_users_def operand_users_def split: option.splits if_splits)
  have k: "InstructionUser c \<notin> set (constant_users (FuncV name) k)" for k
    by (auto simp: constant_users_def operand_users_def split: if_splits)
  from u c(1) g k obtain j where j: "j \<in> set (all_insts m)"
    and "InstructionUser c \<in> set (inst_users (FuncV name) j)"
    by (auto simp: users_def)
  then have "c = j"
    by (auto simp: inst_users_def operand_users_def split: if_splits)
  with j c show "n \<in> inst_id ` {i \<in> set (all_insts m). is_call_to name i}"
    by blast
next
  fix n assume "n \<in> inst_id ` {i \<in> set (all_insts m). is_call_to name i}"
  then obtain i where i: "i \<in> set (all_insts m)" "is_call_to name i" "n = inst_id i"
    by blast
  from callee_is_operand [OF i(2)] have "FuncV name \<in> set (inst_operands i)"
    by (metis last_in_set)
  then have "InstructionUser i \<in> set (inst_users (FuncV name) i)"
    by (auto simp: inst_users_def operand_users_def)
  with i(1) have "InstructionUser i \<in> set (users m (FuncV name))"
    by (auto simp: users_def)
  with i(2,3) show "n \<in> set (CallersOf m name)"
    by (force simp: CallersOf_def is_call_to_def)
qed

lemma list_all2_filter_same:
  assumes "list_all2 P xs ys" and "\<And>x y. P x y \<Longrightarrow> f x = g y"
  shows "list_all2 P (filter f xs) (filter g ys)"
  using assms by (induction rule: list_all2_induct) auto

lemma rewired_replace:
  assumes "rewired R i j" and "\<And>v. R v old \<Longrightarrow> R v new"
  shows "rewired R i (replace_operand old new j)"
  using assms
  by (auto simp: rewired_def replace_operand_def list_all2_map2 elim!: list_all2_mono)


lemma list_all2_in_right:
  assumes "list_all2 P xs ys" and "y \<in> set ys"
  shows "\<exists>x\<in>set xs. P x y"
  using assms by (induction rule: list_all2_induct) auto

lemma list_all2_in_left:
  assumes "list_all2 P xs ys" and "x \<in> set xs"
  shows "\<exists>y\<in>set ys. P x y"
  using assms by (induction rule: list_all2_induct) auto


lemma filter_callers:
  assumes "distinct (map inst_id (all_insts m))"
  shows "filter (\<lambda>i. inst_id i \<notin> set (CallersOf m name)) (all_insts m)
         = filter (\<lambda>i. \<not> is_call_to name i) (all_insts m)"
proof (rule filter_cong [OF refl])
  fix i assume i: "i \<in> set (all_insts m)"
  show "(inst_id i \<notin> set (CallersOf m name)) = (\<not> is_call_to name i)"
  proof
    assume "inst_id i \<notin> set (CallersOf m name)"
    with i show "\<not> is_call_to name i"
      by (auto simp: CallersOf_set)
  next
    assume n: "\<not> is_call_to name i"
    show "inst_id i \<notin> set (CallersOf m name)"
    proof
      assume "inst_id i \<in> set (CallersOf m name)"
      then obtain j where j: "j \<in> set (all_insts m)" "is_call_to name j" "inst_id i = inst_id j"
        by (auto simp: CallersOf_set)
      with assms i have "i = j"
        by (blast intro: same_id_same_inst)
      with j n show False by simp
    qed
  qed
qed

lemma is_call_toI:
  assumes "opcode i = Call" and "inst_operands i \<noteq> []" and "last (inst_operands i) = FuncV name"
  shows "is_call_to name i"
proof -
  from assms(2) obtain x xs where x: "inst_operands i = x # xs"
    by (cases "inst_operands i") auto
  with assms(3) have "last (x # xs) = FuncV name" by simp
  then show ?thesis
    using assms(1) x by (simp add: is_call_to_def getCalledFunction_def del: last.simps)
qed


lemma concat_map_concat:
  "concat (map g (concat xss)) = concat (map (\<lambda>xs. concat (map g xs)) xss)"
  by (induction xss) auto

lemma slot_callers:
  "concat (map (caller_of_user name) (operand_users (FuncV name) (InstructionUser i) s))
   = (if s = FuncV name \<and> is_call_to name i then [inst_id i] else [])"
  by (simp add: operand_users_def caller_of_user_def is_call_to_def)

lemma slots_no_callers:
  assumes "FuncV name \<notin> set xs"
  shows "concat (map (\<lambda>s. concat (map (caller_of_user name)
            (operand_users (FuncV name) (InstructionUser i) s))) xs) = []"
  using assms by (induction xs) (auto simp: slot_callers)

lemma inst_callers:
  assumes "is_call_to name i \<longrightarrow> FuncV name \<notin> set (butlast (inst_operands i))"
  shows "concat (map (caller_of_user name) (inst_users (FuncV name) i))
         = (if is_call_to name i then [inst_id i] else [])"
proof (cases "is_call_to name i")
  case False
  then have "concat (map (\<lambda>s. concat (map (caller_of_user name)
            (operand_users (FuncV name) (InstructionUser i) s))) xs) = []" for xs
    by (induction xs) (auto simp: slot_callers)
  with False show ?thesis
    by (simp add: inst_users_def concat_map_concat comp_def)
next
  case True
  from callee_is_operand [OF True] have
    ops: "inst_operands i = butlast (inst_operands i) @ [FuncV name]"
    by (metis append_butlast_last_id)
  have "concat (map (caller_of_user name) (inst_users (FuncV name) i))
        = concat (map (\<lambda>s. concat (map (caller_of_user name)
            (operand_users (FuncV name) (InstructionUser i) s)))
            (butlast (inst_operands i) @ [FuncV name]))"
    unfolding inst_users_def concat_map_concat using ops by (simp add: comp_def)
  also have "\<dots> = [inst_id i]"
    using assms True by (simp add: slots_no_callers slot_callers)
  finally show ?thesis
    using True by simp
qed

lemma global_callers:
  "concat (map (caller_of_user name) (global_users v g)) = []"
  by (auto simp: global_users_def operand_users_def caller_of_user_def split: option.splits)

lemma constant_callers:
  "concat (map (caller_of_user name) (constant_users v c)) = []"
  by (auto simp: constant_users_def operand_users_def caller_of_user_def)

lemma CallersOf_filter:
  assumes "\<forall>c\<in>set (all_insts m). is_call_to name c \<longrightarrow> FuncV name \<notin> set (butlast (inst_operands c))"
  shows "CallersOf m name = map inst_id (filter (is_call_to name) (all_insts m))"
proof -
  have g: "concat (map (\<lambda>g. concat (map (caller_of_user name) (global_users (FuncV name) g))) gs) = []" for gs
    by (induction gs) (simp_all add: global_callers)
  have k: "concat (map (\<lambda>c. concat (map (caller_of_user name) (constant_users (FuncV name) c))) cs) = []" for cs
    by (induction cs) (simp_all add: constant_callers)
  have i: "concat (map (\<lambda>i. concat (map (caller_of_user name) (inst_users (FuncV name) i))) xs)
           = map inst_id (filter (is_call_to name) xs)"
    if "\<forall>c\<in>set xs. is_call_to name c \<longrightarrow> FuncV name \<notin> set (butlast (inst_operands c))" for xs
    using that by (induction xs) (simp_all add: inst_callers)
  have "CallersOf m name = concat (map (caller_of_user name) (users m (FuncV name)))"
    unfolding CallersOf_def caller_of_user_def ..
  also have "\<dots> = map inst_id (filter (is_call_to name) (all_insts m))"
    unfolding users_def map_append concat_append concat_map_concat
    using g [of "module_globals m"] k [of "remdups (context_constants m)"] i [OF assms]
    by (simp add: comp_def)
  finally show ?thesis .
qed

lemma CallersOf_distinct:
  assumes "distinct (map inst_id (all_insts m))"
    and "\<forall>c\<in>set (all_insts m). is_call_to name c \<longrightarrow> FuncV name \<notin> set (butlast (inst_operands c))"
  shows "distinct (CallersOf m name)"
  using assms(1) by (simp add: CallersOf_filter [OF assms(2)] distinct_map_filter)

text \<open>
  The example modules are states of LLVM: the context holds every constant expression
  that they mention.
\<close>

lemma ex_modules_context_closed:
  "context_closed ex_isel_module"
  "context_closed ex_barrier_module"
  "context_closed ex_mem_module"
  "context_closed ex_mem_const_module"
  "context_closed ex_mem_const_lowered"
  "context_closed ex_defined_intrinsic_module"
  "context_closed ex_undef_twice_module"
  "context_closed ex_undef_module"
  by code_simp+

subsection \<open>Removal of the ISEL globals\<close>

lemma users_setLinkage_global: "users (setLinkage_global name l m) v = users m v"
proof -
  have "global_users v (if gv_name g = name then g\<lparr>gv_linkage := l\<rparr> else g) = global_users v g" for g
    by (simp add: global_users_def split: option.splits)
  then show ?thesis
    by (simp add: users_def setLinkage_global_def all_insts_def comp_def)
qed

lemma getNumUses_setLinkage_global:
  "getNumUses (setLinkage_global name l m) v = getNumUses m v"
  by (simp add: getNumUses_def users_setLinkage_global)

lemma internalize_Cons:
  "internalize rest (setLinkage_global isel InternalLinkage m) = internalize (isel # rest) m"
  by (auto simp: internalize_def setLinkage_global_def)

lemma internalize_Nil: "internalize [] m = m"
  by (simp add: internalize_def)

lemma getNumUses_internalize: "getNumUses (internalize isels m) v = getNumUses m v"
proof -
  have "global_users v (if gv_name g \<in> set isels then g\<lparr>gv_linkage := InternalLinkage\<rparr> else g)
        = global_users v g" for g
    by (simp add: global_users_def split: option.splits)
  then show ?thesis
    by (simp add: getNumUses_def users_def internalize_def all_insts_def comp_def)
qed

lemma RemoveISELs_scan_live:
  assumes "\<forall>g\<in>set isels. 1 < getNumUses m (GlobalV g)"
  shows "RemoveISELs_scan isels next_isels m = (next_isels @ isels, internalize isels m)"
  using assms
proof (induction isels arbitrary: next_isels m)
  case Nil
  then show ?case by (simp add: internalize_Nil)
next
  case (Cons isel rest)
  let ?m1 = "setLinkage_global isel InternalLinkage m"
  have live: "\<not> 1 \<ge> getNumUses ?m1 (GlobalV isel)"
    using Cons.prems by (simp add: getNumUses_setLinkage_global)
  have "\<forall>g\<in>set rest. 1 < getNumUses ?m1 (GlobalV g)"
    using Cons.prems by (simp add: getNumUses_setLinkage_global)
  then have "RemoveISELs_scan rest (next_isels @ [isel]) ?m1
             = ((next_isels @ [isel]) @ rest, internalize rest ?m1)"
    by (rule Cons.IH)
  with live show ?case
    by (simp add: Let_def internalize_Cons)
qed

text \<open>
  A non-empty list of ISELs that all have more than one use is handed unchanged from
  one scan to the next, so the loop never ends.
\<close>

lemma RemoveISELs_live_isels_diverge:
  assumes "isels \<noteq> []" and "\<forall>g\<in>set isels. 1 < getNumUses m (GlobalV g)"
  shows "RemoveISELs isels m = None"
proof (rule ccontr)
  assume "RemoveISELs isels m \<noteq> None"
  then obtain y where y: "RemoveISELs isels m = Some y" by blast
  have "\<not> (isels \<noteq> [] \<and> (\<forall>g\<in>set isels. 1 < getNumUses m (GlobalV g)))"
  proof (rule RemoveISELs.raw_induct
      [where P = "\<lambda>a b c. \<not> (a \<noteq> [] \<and> (\<forall>g\<in>set a. 1 < getNumUses b (GlobalV g)))", OF _ y])
    fix f a b c
    assume ih: "\<And>a b c. f a b = Some c \<Longrightarrow>
        \<not> (a \<noteq> [] \<and> (\<forall>g\<in>set a. 1 < getNumUses b (GlobalV g)))"
      and step: "(if a = [] then Some b
                  else case RemoveISELs_scan a [] b of (next_isels, m1) \<Rightarrow> f next_isels m1) = Some c"
    show "\<not> (a \<noteq> [] \<and> (\<forall>g\<in>set a. 1 < getNumUses b (GlobalV g)))"
    proof
      assume live: "a \<noteq> [] \<and> (\<forall>g\<in>set a. 1 < getNumUses b (GlobalV g))"
      then have "RemoveISELs_scan a [] b = (a, internalize a b)"
        using RemoveISELs_scan_live [of a b "[]"] by simp
      with live step have "f a (internalize a b) = Some c"
        by simp
      from ih [OF this] live show False
        by (simp add: getNumUses_internalize)
    qed
  qed
  with assms show False by blast
qed

lemma ex_isel_live:
  "FindISELs ex_isel_module = Inr [''ISEL_ADD_GPRv_GPRv'']"
  "getNumUses ex_isel_module (GlobalV ''ISEL_ADD_GPRv_GPRv'') = 2"
  by (simp_all add: FindISELs_def is_isel_def getFunction_def getParamType_def
      ex_isel_module_def ex_semantics_function_def getNumUses_def users_def all_insts_def
      body_insts_def inst_users_def operand_users_def global_users_def constant_users_def
      constant_operands_def)

text \<open>
  Uses are counted per user, and a constant expression is one user however many
  instructions hold it: two loads through one bit cast of an ISEL leave the ISEL with one
  use, so the scan erases it and \<open>RemoveISELs\<close> returns.
\<close>

lemma ex_isel_shared_use:
  "context_closed ex_isel_shared_module
   \<and> getNumUses ex_isel_shared_module (GlobalV ''ISEL_ADD_GPRv_GPRv'') = 1
   \<and> RemoveISELs_scan [''ISEL_ADD_GPRv_GPRv''] [] ex_isel_shared_module
       = ([], eraseFromParent_global ''ISEL_ADD_GPRv_GPRv''
                (setLinkage_global ''ISEL_ADD_GPRv_GPRv'' InternalLinkage ex_isel_shared_module))
   \<and> RemoveISELs [''ISEL_ADD_GPRv_GPRv''] ex_isel_shared_module
       = Some (eraseFromParent_global ''ISEL_ADD_GPRv_GPRv''
                (setLinkage_global ''ISEL_ADD_GPRv_GPRv'' InternalLinkage ex_isel_shared_module))"
proof -
  have closed: "context_closed ex_isel_shared_module"
    by code_simp
  have one: "getNumUses ex_isel_shared_module (GlobalV ''ISEL_ADD_GPRv_GPRv'') = 1"
    by code_simp
  have scan: "RemoveISELs_scan [''ISEL_ADD_GPRv_GPRv''] [] ex_isel_shared_module
       = ([], eraseFromParent_global ''ISEL_ADD_GPRv_GPRv''
                (setLinkage_global ''ISEL_ADD_GPRv_GPRv'' InternalLinkage ex_isel_shared_module))"
    using one by (simp add: getNumUses_setLinkage_global)
  have "RemoveISELs [''ISEL_ADD_GPRv_GPRv''] ex_isel_shared_module
       = RemoveISELs [] (eraseFromParent_global ''ISEL_ADD_GPRv_GPRv''
                (setLinkage_global ''ISEL_ADD_GPRv_GPRv'' InternalLinkage ex_isel_shared_module))"
    by (subst RemoveISELs.simps) (simp add: one getNumUses_setLinkage_global Let_def)
  also have "\<dots> = Some (eraseFromParent_global ''ISEL_ADD_GPRv_GPRv''
                (setLinkage_global ''ISEL_ADD_GPRv_GPRv'' InternalLinkage ex_isel_shared_module))"
    by (subst RemoveISELs.simps) simp
  finally show ?thesis
    using closed one scan by simp
qed

text \<open>
  C2. The loop of \<open>RemoveISELs\<close> stops only on an empty list. A module with one ISEL
  that two instructions use: \<open>FindISELs\<close> finds it, every scan keeps it, and
  \<open>RemoveISELs\<close> does not return.
\<close>

theorem C2_RemoveISELs_does_not_return:
  "FindISELs ex_isel_module = Inr [''ISEL_ADD_GPRv_GPRv'']
   \<and> RemoveISELs [''ISEL_ADD_GPRv_GPRv''] ex_isel_module = None"
  using RemoveISELs_live_isels_diverge [of "[''ISEL_ADD_GPRv_GPRv'']" ex_isel_module]
  by (simp add: ex_isel_live)

text \<open>
  C8 as stated fails on the same module: its one ISEL has two uses, so it is free of dead
  ISELs, yet \<open>RemoveISELs\<close> returns no module at all, and the first scan has already
  changed the module (the linkage of the ISEL).
\<close>

theorem C8_live_isels_counterexample:
  "FindISELs ex_isel_module = Inr [''ISEL_ADD_GPRv_GPRv'']
   \<and> 1 < getNumUses ex_isel_module (GlobalV ''ISEL_ADD_GPRv_GPRv'')
   \<and> RemoveISELs [''ISEL_ADD_GPRv_GPRv''] ex_isel_module \<noteq> Some ex_isel_module
   \<and> snd (RemoveISELs_scan [''ISEL_ADD_GPRv_GPRv''] [] ex_isel_module) \<noteq> ex_isel_module"
proof -
  have "RemoveISELs [''ISEL_ADD_GPRv_GPRv''] ex_isel_module = None"
    using RemoveISELs_live_isels_diverge [of "[''ISEL_ADD_GPRv_GPRv'']" ex_isel_module]
    by (simp add: ex_isel_live)
  moreover have "snd (RemoveISELs_scan [''ISEL_ADD_GPRv_GPRv''] [] ex_isel_module) \<noteq> ex_isel_module"
    using RemoveISELs_scan_live [of "[''ISEL_ADD_GPRv_GPRv'']" ex_isel_module "[]"]
    by (simp add: ex_isel_live internalize_def) (simp add: ex_isel_module_def)
  ultimately show ?thesis
    by (simp add: ex_isel_live)
qed

text \<open>
  C8 (as amended). With no ISEL discovered, \<open>RemoveISELs\<close> returns the module as it
  is. When every listed ISEL has more than one use, a scan of the list erases no global,
  keeps the whole list, and changes nothing in the module but the linkage of the listed
  ISELs, which becomes internal: names and initializers of the globals and all functions
  stay as they are.
\<close>

theorem C8_scan_of_live_isels:
  assumes "\<forall>g\<in>set isels. 1 < getNumUses m (GlobalV g)"
  shows "RemoveISELs [] m = Some m
     \<and> RemoveISELs_scan isels [] m = (isels, internalize isels m)
     \<and> map gv_name (module_globals (internalize isels m)) = map gv_name (module_globals m)
     \<and> map initializer (module_globals (internalize isels m)) = map initializer (module_globals m)
     \<and> module_functions (internalize isels m) = module_functions m"
proof -
  have "RemoveISELs [] m = Some m"
    by (subst RemoveISELs.simps) simp
  moreover have "RemoveISELs_scan isels [] m = (isels, internalize isels m)"
    using RemoveISELs_scan_live [OF assms, of "[]"] by simp
  ultimately show ?thesis
    by (simp add: internalize_def comp_def)
qed

theorem C8_scan_of_live_isels_witness:
  "RemoveISELs [] ex_isel_module = Some ex_isel_module
   \<and> RemoveISELs_scan [''ISEL_ADD_GPRv_GPRv''] [] ex_isel_module
       = ([''ISEL_ADD_GPRv_GPRv''], internalize [''ISEL_ADD_GPRv_GPRv''] ex_isel_module)"
  using C8_scan_of_live_isels [of "[''ISEL_ADD_GPRv_GPRv'']" ex_isel_module]
  by (simp add: ex_isel_live)

subsection \<open>Lowering of the barriers\<close>

lemma ReplaceBarrier_callers_inv:
  assumes "distinct (map inst_id (all_insts m))"
    and "\<forall>c\<in>set (all_insts m). is_call_to name c \<longrightarrow> Suc k < length (inst_operands c)"
    and "\<forall>c\<in>set (all_insts m). is_call_to name c \<longrightarrow>
           \<not> (passes_through m name k)\<^sup>+\<^sup>+ (InstV (inst_id c)) (InstV (inst_id c))"
    and "barrier_inv m name k D mc"
    and "set cs \<subseteq> set (CallersOf m name)" and "distinct cs" and "set cs \<inter> D = {}"
  shows "\<exists>m1. ReplaceBarrier_callers k cs mc = Inr m1 \<and> barrier_inv m name k (D \<union> set cs) m1"
  using assms(4-)
proof (induction cs arbitrary: D mc)
  case Nil
  then show ?case by simp
next
  case (Cons c rest)
  let ?R = "(passes_through m name k)\<^sup>*\<^sup>*"
  from Cons.prems have cC: "c \<in> set (CallersOf m name)" and cD: "c \<notin> D" by auto
  then obtain i0 where i0: "i0 \<in> set (all_insts m)" "is_call_to name i0" "inst_id i0 = c"
    by (auto simp: CallersOf_set)
  from assms(2) i0 have len0: "Suc k < length (inst_operands i0)" by blast
  have rel: "list_all2 (rewired ?R) (filter (\<lambda>i. inst_id i \<notin> D) (all_insts m)) (all_insts mc)"
    and clean: "\<forall>j\<in>set (all_insts mc). \<forall>d\<in>D. InstV d \<notin> set (inst_operands j)"
    using Cons.prems(1) by (auto simp: barrier_inv_def)
  from i0 cD have "i0 \<in> set (filter (\<lambda>i. inst_id i \<notin> D) (all_insts m))" by simp
  from list_all2_in_left [OF rel this]
  obtain ic where ic: "ic \<in> set (all_insts mc)" "rewired ?R i0 ic"
    by blast
  have ic_unique: "j = ic" if "j \<in> set (all_insts mc)" "inst_id j = c" for j
  proof -
    have "distinct (map inst_id (all_insts mc))"
    proof -
      have "map inst_id (all_insts mc) = map inst_id (filter (\<lambda>i. inst_id i \<notin> D) (all_insts m))"
        using rel by (induction rule: list_all2_induct) (auto simp: rewired_def)
      then show ?thesis
        using assms(1) by (simp add: distinct_map_filter)
    qed
    moreover have "inst_id j = inst_id ic"
      using that(2) ic(2) i0(3) by (simp add: rewired_def)
    ultimately show ?thesis
      using that(1) ic(1) by (blast intro: same_id_same_inst)
  qed
  have idc: "inst_id ic = c" and lenc: "length (inst_operands ic) = length (inst_operands i0)"
    and ops: "list_all2 ?R (inst_operands i0) (inst_operands ic)"
    using ic(2) i0(3) by (auto simp: rewired_def dest: list_all2_lengthD)
  define a where "a = inst_operands ic ! k"
  have find: "find_inst mc c = Some ic"
  proof -
    from ic(1) idc obtain j where j: "find_inst mc c = Some j"
      by (cases "find_inst mc c") (auto simp: find_inst_None_iff)
    with ic_unique show ?thesis
      by (auto dest: find_inst_SomeD)
  qed
  have arg: "getArgOperand mc c k = Inr a"
    using find len0 lenc by (simp add: getArgOperand_def a_def)
  have edge: "passes_through m name k (InstV c) (inst_operands i0 ! k)"
    using i0 len0 by (auto simp: passes_through_def)
  have Ra: "?R (inst_operands i0 ! k) a"
    using ops len0 by (simp add: a_def list_all2_nthD)
  have a_not_c: "a \<noteq> InstV c"
  proof
    assume "a = InstV c"
    with edge Ra have "(passes_through m name k)\<^sup>+\<^sup>+ (InstV c) (InstV c)"
      by (simp add: rtranclp_into_tranclp2)
    with assms(3) i0 show False by blast
  qed
  define m1 where "m1 = map_bodies (map (replace_operand (InstV c) a)) mc"
  have rauw: "replaceAllUsesWith (InstV c) a mc = Inr m1"
    using a_not_c by (simp add: replaceAllUsesWith_def m1_def)
  have insts1: "all_insts m1 = map (replace_operand (InstV c) a) (all_insts mc)"
    by (simp add: m1_def all_insts_map_bodies_map)
  have "map inst_id (all_insts m1) = map inst_id (all_insts mc)"
    by (simp add: insts1 comp_def replace_operand_def)
  then have "inst_id ` set (all_insts m1) = inst_id ` set (all_insts mc)"
    by (metis set_map)
  then have "c \<in> inst_id ` set (all_insts m1)"
    using ic(1) idc by blast
  then obtain m2 where erase: "eraseFromParent c m1 = Inr m2"
    by (cases "find_inst m1 c") (auto simp: eraseFromParent_def find_inst_None_iff)
  have insts2: "all_insts m2 = filter (\<lambda>i. inst_id i \<noteq> c) (all_insts m1)"
    using erase by (rule all_insts_erase)
  have step: "?R v a" if "?R v (InstV c)" for v
  proof -
    from that edge have "?R v (inst_operands i0 ! k)"
      by (rule rtranclp.rtrancl_into_rtrancl)
    then show ?thesis
      using Ra by (rule rtranclp_trans)
  qed
  have rel1: "list_all2 (rewired ?R) (filter (\<lambda>i. inst_id i \<notin> D) (all_insts m)) (all_insts m1)"
    unfolding insts1 list_all2_map2
    using rel by (rule list_all2_mono) (simp add: rewired_replace step)
  have rel2: "list_all2 (rewired ?R) (filter (\<lambda>i. inst_id i \<notin> insert c D) (all_insts m)) (all_insts m2)"
  proof -
    have "list_all2 (rewired ?R)
            (filter (\<lambda>i. inst_id i \<noteq> c) (filter (\<lambda>i. inst_id i \<notin> D) (all_insts m)))
            (filter (\<lambda>i. inst_id i \<noteq> c) (all_insts m1))"
      using rel1 by (rule list_all2_filter_same) (simp add: rewired_def)
    moreover have "filter (\<lambda>i. inst_id i \<noteq> c) (filter (\<lambda>i. inst_id i \<notin> D) (all_insts m))
                   = filter (\<lambda>i. inst_id i \<notin> insert c D) (all_insts m)"
      by (auto intro: filter_cong)
    ultimately show ?thesis
      by (simp only: insts2)
  qed
  have clean2: "\<forall>j\<in>set (all_insts m2). \<forall>d\<in>insert c D. InstV d \<notin> set (inst_operands j)"
  proof (intro ballI)
    fix j d assume j: "j \<in> set (all_insts m2)" and d: "d \<in> insert c D"
    from j obtain j0 where j0: "j0 \<in> set (all_insts mc)" "j = replace_operand (InstV c) a j0"
      by (auto simp: insts2 insts1)
    have "a \<in> set (inst_operands ic)"
      using len0 lenc by (simp add: a_def)
    with clean ic(1) have a_clean: "\<forall>d\<in>D. a \<noteq> InstV d" by blast
    show "InstV d \<notin> set (inst_operands j)"
    proof (cases "d = c")
      case True
      then show ?thesis
        using a_not_c by (auto simp: j0(2) replace_operand_def)
    next
      case False
      with d have "d \<in> D" by simp
      with clean j0(1) a_clean show ?thesis
        by (auto simp: j0(2) replace_operand_def)
    qed
  qed
  have inv2: "barrier_inv m name k (insert c D) m2"
    using rel2 clean2 by (simp add: barrier_inv_def)
  from Cons.prems have "set rest \<subseteq> set (CallersOf m name)" "distinct rest"
    "set rest \<inter> insert c D = {}"
    by auto
  from Cons.IH [OF inv2 this] obtain m3 where
    "ReplaceBarrier_callers k rest m2 = Inr m3" "barrier_inv m name k (insert c D \<union> set rest) m3"
    by blast
  then show ?case
    using arg rauw erase by auto
qed


text \<open>
  C5. \<open>ReplaceBarrier\<close> on any intrinsic name, so on each of the six barriers that
  \<open>OptimizeModule\<close> lowers. The module has distinct instruction identities, every call
  to the intrinsic has its memory-state argument (argument \<open>k\<close>, the constant
  \<^verbatim>\<open>kMemoryPointerArgNum\<close>) and does not pass the intrinsic to itself, and no call is
  its own memory-state argument through a chain of such calls. Then: an absent intrinsic
  leaves the module as it is; an intrinsic with a body is the failed \<^verbatim>\<open>CHECK\<close>;
  for a declaration the stage returns a module in which no call to the intrinsic is
  left, whose instructions are the other instructions of the input, each operand either
  unchanged or reached from the result of an erased call by passing to memory-state
  arguments, and in which no operand names an erased call.
\<close>

theorem C5_barrier_lowering:
  assumes "distinct (map inst_id (all_insts m))"
    and "\<forall>c\<in>set (all_insts m). is_call_to name c \<longrightarrow>
           Suc k < length (inst_operands c) \<and> FuncV name \<notin> set (butlast (inst_operands c))"
    and "\<forall>c\<in>set (all_insts m). is_call_to name c \<longrightarrow>
           \<not> (passes_through m name k)\<^sup>+\<^sup>+ (InstV (inst_id c)) (InstV (inst_id c))"
  shows "case getFunction m name of
           None \<Rightarrow> ReplaceBarrier k name m = Inr m
         | Some func \<Rightarrow>
             if \<not> isDeclaration func
             then ReplaceBarrier k name m =
                    Inl (CheckFailed ''Cannot lower already implemented memory intrinsic'')
             else (\<exists>m1. ReplaceBarrier k name m = Inr m1 \<and>
                    CallersOf m1 name = [] \<and>
                    list_all2 (rewired (passes_through m name k)\<^sup>*\<^sup>*)
                      (filter (\<lambda>i. \<not> is_call_to name i) (all_insts m)) (all_insts m1) \<and>
                    (\<forall>j\<in>set (all_insts m1). \<forall>c\<in>set (all_insts m).
                        is_call_to name c \<longrightarrow> InstV (inst_id c) \<notin> set (inst_operands j)))"
proof (cases "getFunction m name")
  case None
  then show ?thesis by (simp add: ReplaceBarrier_def)
next
  case (Some func)
  show ?thesis
  proof (cases "isDeclaration func")
    case False
    with Some show ?thesis by (simp add: ReplaceBarrier_def)
  next
    case True
    let ?R = "(passes_through m name k)\<^sup>*\<^sup>*"
    let ?cs = "CallersOf m name"
    have inv0: "barrier_inv m name k {} m"
      by (simp add: barrier_inv_def rewired_def list_all2_refl list.rel_refl)
    have d: "distinct ?cs"
      using assms(1,2) by (intro CallersOf_distinct) auto
    from ReplaceBarrier_callers_inv [where D = "{}" and cs = ?cs and mc = m, OF assms(1) _ assms(3) inv0 _ d]
      assms(2)
    obtain m1 where run: "ReplaceBarrier_callers k ?cs m = Inr m1"
      and inv: "barrier_inv m name k (set ?cs) m1"
      by auto
    have rel: "list_all2 (rewired ?R) (filter (\<lambda>i. \<not> is_call_to name i) (all_insts m)) (all_insts m1)"
      using inv by (simp add: barrier_inv_def filter_callers [OF assms(1)])
    have clean: "\<forall>j\<in>set (all_insts m1). \<forall>c\<in>set (all_insts m).
                   is_call_to name c \<longrightarrow> InstV (inst_id c) \<notin> set (inst_operands j)"
      using inv by (auto simp: barrier_inv_def CallersOf_set)
    have none: "CallersOf m1 name = []"
    proof (rule ccontr)
      assume "CallersOf m1 name \<noteq> []"
      then obtain n where "n \<in> set (CallersOf m1 name)"
        by (cases "CallersOf m1 name") auto
      then obtain j where j: "j \<in> set (all_insts m1)" "is_call_to name j"
        by (auto simp: CallersOf_set)
      from list_all2_in_right [OF rel j(1)]
      obtain i where i: "i \<in> set (all_insts m)" "\<not> is_call_to name i" "rewired ?R i j"
        by auto
      from callee_is_operand [OF j(2)] have oj: "inst_operands j \<noteq> []"
        "last (inst_operands j) = FuncV name" by auto
      from i(3) have ops: "list_all2 ?R (inst_operands i) (inst_operands j)"
        and opc: "opcode i = Call"
        using j(2) by (auto simp: rewired_def is_call_to_def)
      from ops oj(1) have oi: "inst_operands i \<noteq> []"
        by auto
      have "?R (last (inst_operands i)) (last (inst_operands j))"
        using ops oi oj(1)
        by (simp add: last_conv_nth list_all2_lengthD list_all2_nthD)
      then have "?R (last (inst_operands i)) (FuncV name)"
        by (simp add: oj(2))
      then show False
      proof (cases rule: rtranclp.cases)
        case rtrancl_refl
        with oi opc have "is_call_to name i"
          by (intro is_call_toI) simp_all
        with i(2) show False by simp
      next
        case (rtrancl_into_rtrancl b)
        then obtain c where c: "c \<in> set (all_insts m)" "is_call_to name c"
          "Suc k < length (inst_operands c)" "inst_operands c ! k = FuncV name"
          by (auto simp: passes_through_def)
        then have "FuncV name \<in> set (butlast (inst_operands c))"
          by (metis Suc_lessD length_butlast less_diff_conv nth_butlast nth_mem Suc_eq_plus1)
        with assms(2) c show False by blast
      qed
    qed
    from Some True run none rel clean show ?thesis
      by (simp add: ReplaceBarrier_def)
  qed
qed


lemma ex_barrier_insts:
  "all_insts ex_barrier_module =
     [\<lparr>inst_id = 1, opcode = Call, inst_type = ex_memory_type,
       inst_operands = [ArgV 0, FuncV ''__remill_barrier_load_load'']\<rparr>,
      \<lparr>inst_id = 2, opcode = Call, inst_type = ex_memory_type,
       inst_operands = [InstV 1, FuncV ''__remill_barrier_load_load'']\<rparr>,
      \<lparr>inst_id = 3, opcode = Ret, inst_type = VoidTy, inst_operands = [InstV 2]\<rparr>]"
  by (simp add: ex_barrier_module_def all_insts_def body_insts_def)

lemma ex_barrier_edges:
  "passes_through ex_barrier_module ''__remill_barrier_load_load'' 0 v a
   \<longleftrightarrow> (v = InstV 1 \<and> a = ArgV 0) \<or> (v = InstV 2 \<and> a = InstV 1)"
  by (auto simp: passes_through_def ex_barrier_insts is_call_to_def getCalledFunction_def)

lemma ex_barrier_acyclic:
  "\<not> (passes_through ex_barrier_module ''__remill_barrier_load_load'' 0)\<^sup>+\<^sup>+ (InstV n) (InstV n)"
proof
  let ?P = "passes_through ex_barrier_module ''__remill_barrier_load_load'' 0"
  have arg: "v = ArgV 0" if "?P\<^sup>*\<^sup>* (ArgV 0) v" for v
    using that by (rule converse_rtranclpE) (simp_all add: ex_barrier_edges)
  have one: "v = InstV 1 \<or> v = ArgV 0" if "?P\<^sup>*\<^sup>* (InstV 1) v" for v
    using that
  proof (rule converse_rtranclpE)
    fix z assume "?P (InstV 1) z" and z: "?P\<^sup>*\<^sup>* z v"
    then have "z = ArgV 0" by (simp add: ex_barrier_edges)
    with z arg show ?thesis by blast
  qed simp
  assume "?P\<^sup>+\<^sup>+ (InstV n) (InstV n)"
  then obtain z where z: "?P (InstV n) z" "?P\<^sup>*\<^sup>* z (InstV n)"
    by (blast dest: tranclpD)
  from z(1) consider "n = 1" "z = ArgV 0" | "n = 2" "z = InstV 1"
    by (auto simp: ex_barrier_edges)
  then show False
  proof cases
    case 1
    with z(2) arg [of "InstV n"] show False by simp
  next
    case 2
    with z(2) one [of "InstV n"] show False by simp
  qed
qed

theorem C5_barrier_lowering_witness:
  "ReplaceBarrier 0 ''__remill_barrier_load_load'' ex_barrier_module = Inr ex_barrier_lowered
   \<and> CallersOf ex_barrier_lowered ''__remill_barrier_load_load'' = []
   \<and> ReplaceBarrier 0 ''__remill_barrier_store_store'' ex_barrier_module = Inr ex_barrier_module"
proof -
  have run: "ReplaceBarrier 0 ''__remill_barrier_load_load'' ex_barrier_module = Inr ex_barrier_lowered"
    by code_simp
  have d: "distinct (map inst_id (all_insts ex_barrier_module))"
    by (simp add: ex_barrier_insts)
  have a: "\<forall>c\<in>set (all_insts ex_barrier_module). is_call_to ''__remill_barrier_load_load'' c \<longrightarrow>
             Suc 0 < length (inst_operands c) \<and>
             FuncV ''__remill_barrier_load_load'' \<notin> set (butlast (inst_operands c))"
    by (simp add: ex_barrier_insts is_call_to_def)
  have c: "\<forall>c\<in>set (all_insts ex_barrier_module). is_call_to ''__remill_barrier_load_load'' c \<longrightarrow>
             \<not> (passes_through ex_barrier_module ''__remill_barrier_load_load'' 0)\<^sup>+\<^sup>+
                 (InstV (inst_id c)) (InstV (inst_id c))"
    using ex_barrier_acyclic by blast
  have g: "getFunction ex_barrier_module ''__remill_barrier_load_load''
           = Some \<lparr>fn_name = ''__remill_barrier_load_load'', return_type = ex_memory_type,
                   param_types = [ex_memory_type],
                   fn_linkage = ExternalLinkage, fn_attributes = [], body = None\<rparr>"
    by (simp add: getFunction_def ex_barrier_module_def)
  have g2: "getFunction ex_barrier_module ''__remill_barrier_store_store'' = None"
    by (simp add: getFunction_def ex_barrier_module_def)
  from C5_barrier_lowering [OF d a c]
  obtain m1 where m1: "ReplaceBarrier 0 ''__remill_barrier_load_load'' ex_barrier_module = Inr m1"
    "CallersOf m1 ''__remill_barrier_load_load'' = []"
    unfolding g option.case isDeclaration_def by auto
  from m1 run have "CallersOf ex_barrier_lowered ''__remill_barrier_load_load'' = []"
    by simp
  moreover have "ReplaceBarrier 0 ''__remill_barrier_store_store'' ex_barrier_module = Inr ex_barrier_module"
    by (simp add: ReplaceBarrier_def g2)
  ultimately show ?thesis
    using run by simp
qed

section \<open>Lowering of the memory intrinsics\<close>















subsection \<open>Casts that the builder inserts\<close>


lemma CreateCast_same_type:
  assumes "getType_value m ip v = Some t"
  shows "CreateCast folder ip op v t m = Inr (v, m)"
  using assms by (simp add: CreateCast_def)

lemma CreateCast_folds:
  assumes "isa_Constant v" and "getType_value m ip v \<noteq> Some t"
  shows "CreateCast folder ip op v t m
         = Inr (folder op v t,
                m\<lparr>context_constants := context_constants m @ constants_in (folder op v t)\<rparr>)"
  using assms by (auto simp: CreateCast_def Let_def split: option.splits)













lemma length_replace_operand [simp]:
  "length (inst_operands (replace_operand old new i)) = length (inst_operands i)"
  by (simp add: replace_operand_def)




































text \<open>
  A read at a constant address is outside the hypotheses of the theorem: the builder folds
  the cast, and the call becomes one load through a constant expression that the context
  now holds.
\<close>

lemma ex_constant_address_lowering:
  "\<not> inserts_cast ex_mem_const_module 1 (ConstantIntV (IntegerTy 64) 0x601040)
       (PointerTy (IntegerTy 32))
   \<and> ReplaceMemOp ex_folder (MemRead, ''__remill_read_memory_32'', IntegerTy 32)
        ex_mem_const_module = Inr ex_mem_const_lowered"
  by code_simp


section \<open>Removal of the undefined-value intrinsics\<close>

text \<open>
  C6. A store that the propagation reaches in two rounds: it takes the result of the
  call, and a pointer cast from that result. The first round lists it as a user of the
  call, the second as a user of the cast, so \<^verbatim>\<open>dead_stores\<close> holds it twice and
  the second \<^verbatim>\<open>eraseFromParent\<close> is on a deleted instruction.
\<close>

theorem C6_store_reached_twice:
  "RemoveUndefFuncCalls ex_undef_twice_module = Inl UseAfterFree"
  by code_simp

end
